theory Spec2Isabelle
  imports Main "HOL-Library.Word"
begin

section \<open>The Flutter outline tree view (src/views/flutter\_outline\_view.ts)\<close>

text \<open>
  The file defines \<^verbatim>\<open>FlutterOutlineProvider\<close>, a tree-data provider that keeps the last
  outline notification of the analysis server for the active editor, and
  \<^verbatim>\<open>FlutterWidgetItem\<close>, the tree item built for one outline node.

  The provider is a class with mutable private fields, so its methods are modelled as
  functions from the provider's state to the new state. What the methods do to the
  host (the editor's commands, the tree view, the event emitter, the analyzer) is
  appended to a log held in the state. A \<^verbatim>\<open>TypeError\<close> raised by reading a property
  of \<^verbatim>\<open>null\<close> is a value of type \<open>error\<close>.
\<close>

subsection \<open>Strings\<close>

text \<open>
  A JavaScript string is a sequence of UTF-16 code units. \<open>utf16\<close> writes an ASCII
  literal of the source as such a sequence.
\<close>

type_synonym jschar = "16 word"
type_synonym jsstring = "jschar list"

definition utf16 :: "string \<Rightarrow> jsstring" where
  "utf16 s = map (\<lambda>c. of_char c) s"

text \<open>
  \<^verbatim>\<open>String.prototype.trim\<close> removes white space and line terminators from both ends:
  TAB, LF, VT, FF, CR, SP, NBSP, U+1680, U+2000 to U+200A, U+2028, U+2029, U+202F,
  U+205F, U+3000 and U+FEFF.
\<close>

definition isWhiteSpace :: "jschar \<Rightarrow> bool" where
  "isWhiteSpace c \<longleftrightarrow>
     c \<in> {0x9, 0xA, 0xB, 0xC, 0xD, 0x20, 0xA0, 0x1680, 0x2028, 0x2029, 0x202F, 0x205F,
          0x3000, 0xFEFF}
     \<or> (0x2000 \<le> c \<and> c \<le> 0x200A)"

definition trim :: "jsstring \<Rightarrow> jsstring" where
  "trim s = rev (dropWhile isWhiteSpace (rev (dropWhile isWhiteSpace s)))"

text \<open>
  A string-valued property that may be missing is a \<open>jsstring option\<close>. The source
  tests such a property with \<^verbatim>\<open>if (x)\<close>, which is false for \<^verbatim>\<open>undefined\<close> and for
  the empty string.
\<close>

definition truthy :: "jsstring option \<Rightarrow> bool" where
  "truthy x = (case x of None \<Rightarrow> False | Some v \<Rightarrow> v \<noteq> [])"

subsection \<open>The host editor\<close>

text \<open>
  The editor's API (\<^verbatim>\<open>vscode\<close>) is not part of the repository. A document is given
  by the properties and methods the source uses: \<^verbatim>\<open>positionAt\<close> and
  \<^verbatim>\<open>offsetAt\<close> are the document's own conversions between offsets and positions.
\<close>

record position =
  line :: nat
  character :: nat

record vs_range =
  start :: position
  end' :: position

type_synonym selection = vs_range

record textDocument =
  fileName :: jsstring
  uri :: jsstring
  isClosed :: bool
  positionAt :: "int \<Rightarrow> position"
  offsetAt :: "position \<Rightarrow> int"

record textEditor =
  document :: textDocument

text \<open>
  What \<^verbatim>\<open>vscode.executeCodeActionProvider\<close> answers: commands and code actions. A
  code action may have a kind, whose \<^verbatim>\<open>value\<close> is a string.
\<close>

datatype codeActionKind = CodeActionKind (value': jsstring)

datatype codeAction = CodeAction (title: jsstring) (kind: "codeActionKind option")

datatype commandOrCodeAction = IsCommand jsstring | IsCodeAction codeAction

type_synonym codeActionProvider = "jsstring \<Rightarrow> vs_range \<Rightarrow> commandOrCodeAction list"

datatype error = TypeError

subsection \<open>The analysis server's outline\<close>

text \<open>
  The types \<^verbatim>\<open>as.Element\<close>, \<^verbatim>\<open>as.FlutterOutline\<close> and
  \<^verbatim>\<open>as.FlutterOutlineNotification\<close> are declared in
  \<^verbatim>\<open>analysis_server_types\<close>; they are given here with the properties this file reads.
  The source guards \<^verbatim>\<open>length\<close>, \<^verbatim>\<open>children\<close> and the notification's
  \<^verbatim>\<open>outline\<close> against being missing, so they are optional.
\<close>

record element =
  name :: jsstring
  typeParameters :: "jsstring option"
  parameters :: "jsstring option"
  returnType :: "jsstring option"
  location_offset :: int

datatype flutterOutline = FlutterOutline
  (kind: jsstring)
  (offset: int)
  (length': "int option")
  (dartElement: "element option")
  (variableName: "jsstring option")
  (className: "jsstring option")
  (label: "jsstring option")
  (children: "flutterOutline list option")

record flutterOutlineNotification =
  file' :: jsstring
  outline :: "flutterOutline option"

subsection \<open>FlutterWidgetItem.getLabel\<close>

text \<open>
  \<^verbatim>\<open>label += prefix + x\<close> under \<^verbatim>\<open>if (x)\<close>.
\<close>

definition appendIf :: "jsstring \<Rightarrow> jsstring \<Rightarrow> jsstring option \<Rightarrow> jsstring" where
  "appendIf lbl prefix x = (if truthy x then lbl @ prefix @ the x else lbl)"

definition getLabel :: "flutterOutline \<Rightarrow> jsstring" where
  "getLabel ol =
    (let lbl = [];
         lbl = (case dartElement ol of
                  None \<Rightarrow> lbl
                | Some e \<Rightarrow>
                    (let lbl = lbl @ utf16 '' '' @ name e;
                         lbl = appendIf lbl [] (typeParameters e);
                         lbl = appendIf lbl [] (parameters e);
                         lbl = appendIf lbl [0x20, 0x2192, 0x20] (returnType e)
                     in lbl));
         lbl = appendIf lbl (utf16 '' '') (variableName ol);
         lbl = appendIf lbl (utf16 '' '') (className ol);
         lbl = appendIf lbl (utf16 '' '') (label ol)
     in trim lbl)"

text \<open>
  The label as the specification words it: the parts that are present, in order,
  separated by one space, and the result trimmed. A part is present when the source's
  test of it succeeds.
\<close>

definition present :: "jsstring option \<Rightarrow> jsstring list" where
  "present x = (if truthy x then [the x] else [])"

definition elementPart :: "element \<Rightarrow> jsstring" where
  "elementPart e =
     name e @ concat (present (typeParameters e)) @ concat (present (parameters e))
     @ concat (map (\<lambda>r. [0x20, 0x2192, 0x20] @ r) (present (returnType e)))"

definition labelParts :: "flutterOutline \<Rightarrow> jsstring list" where
  "labelParts ol =
     (case dartElement ol of None \<Rightarrow> [] | Some e \<Rightarrow> [elementPart e])
     @ present (variableName ol) @ present (className ol) @ present (label ol)"

fun spaceSeparated :: "jsstring list \<Rightarrow> jsstring" where
  "spaceSeparated [] = []"
| "spaceSeparated [p] = p"
| "spaceSeparated (p # ps) = p @ [0x20] @ spaceSeparated ps"

definition labelSpec :: "flutterOutline \<Rightarrow> jsstring" where
  "labelSpec ol = trim (spaceSeparated (labelParts ol))"

subsection \<open>FlutterWidgetItem\<close>

text \<open>
  The item's constructor also fills the icon, the command, the context value and the
  tooltip of the tree item. They are presentation only: no method of the provider reads
  them and computing them raises nothing (the constructor is only called with an
  editor), so the item is modelled with its three own properties and with the label and
  the collapsible state it passes to \<^verbatim>\<open>vs.TreeItem\<close>.
\<close>

datatype treeItemCollapsibleState = NoneState | Collapsed | Expanded

datatype flutterWidgetItem = FlutterWidgetItem
  (parent: "flutterWidgetItem option")
  (outline: flutterOutline)
  (fixes': "codeAction list")
  (label: jsstring)
  (collapsibleState: treeItemCollapsibleState)

definition isWidget :: "flutterOutline \<Rightarrow> bool" where
  "isWidget ol \<longleftrightarrow> flutterOutline.kind ol \<noteq> utf16 ''DART_ELEMENT''"

definition newFlutterWidgetItem ::
  "flutterWidgetItem option \<Rightarrow> flutterOutline \<Rightarrow> codeAction list \<Rightarrow> textEditor
   \<Rightarrow> flutterWidgetItem" where
  "newFlutterWidgetItem parent' ol fs editor =
     FlutterWidgetItem parent' ol fs (getLabel ol)
       (case children ol of
          None \<Rightarrow> NoneState
        | Some cs \<Rightarrow> if length cs \<noteq> 0 then Expanded else NoneState)"

subsection \<open>The provider's state\<close>

text \<open>
  What the provider does to its host is logged: setting a context key, firing the
  tree's change event (with no element for the whole tree), revealing an item, asking
  the analyzer for notifications, asking for the code actions at a range.
\<close>

datatype effect =
    SetContext jsstring bool
  | Fire "flutterWidgetItem option"
  | Reveal flutterWidgetItem
  | ForceNotificationsFor jsstring
  | ExecuteCodeActionProvider jsstring vs_range

text \<open>
  The private fields of \<^verbatim>\<open>FlutterOutlineProvider\<close>, followed by the part of the host
  the provider acts on: the clock in milliseconds, the pending timers as pairs of a
  handle and the time they are due, the next handle \<^verbatim>\<open>setTimeout\<close> gives out, and
  the log. Every timer the provider sets has the same callback,
  \<^verbatim>\<open>() => this.update()\<close>. \<^verbatim>\<open>treeNodesByLine\<close> is used as an object keyed by line
  number.
\<close>

record provider =
  activeEditor :: "textEditor option"
  flutterOutline :: "flutterOutlineNotification option"
  treeNodesByLine :: "nat \<rightharpoonup> flutterWidgetItem list"
  updateTimeout :: "nat option"
  now :: nat
  timers :: "(nat \<times> nat) list"
  nextTimer :: nat
  effects :: "effect list"

definition DART_SHOW_FLUTTER_OUTLINE :: jsstring where
  "DART_SHOW_FLUTTER_OUTLINE = utf16 ''dart-code:showFlutterOutline''"

definition setTreeVisible :: "bool \<Rightarrow> provider \<Rightarrow> provider" where
  "setTreeVisible visible s =
     s\<lparr>effects := effects s @ [SetContext DART_SHOW_FLUTTER_OUTLINE visible]\<rparr>"

definition showTree :: "provider \<Rightarrow> provider" where
  "showTree s = setTreeVisible True s"

definition hideTree :: "provider \<Rightarrow> provider" where
  "hideTree s = setTreeVisible False s"

definition refresh :: "provider \<Rightarrow> provider" where
  "refresh s = s\<lparr>effects := effects s @ [Fire None]\<rparr>"

subsection \<open>update\<close>

text \<open>The condition under which \<^verbatim>\<open>update\<close> hides the tree, disjunct by disjunct.\<close>

definition updateHides :: "provider \<Rightarrow> bool" where
  "updateHides s =
     (case flutterOutline s of
        None \<Rightarrow> True
      | Some n \<Rightarrow>
          (case activeEditor s of
             None \<Rightarrow> True
           | Some editor \<Rightarrow>
               file' n \<noteq> fileName (document editor)
               \<or> (case flutterOutlineNotification.outline n of
                     None \<Rightarrow> True
                   | Some ol \<Rightarrow>
                       (case children ol of None \<Rightarrow> True | Some cs \<Rightarrow> length cs = 0))))"

definition update :: "provider \<Rightarrow> provider" where
  "update s = (if updateHides s then hideTree s else refresh (showTree s))"

subsection \<open>Timers and the notification handler\<close>

definition clearTimeout :: "nat option \<Rightarrow> provider \<Rightarrow> provider" where
  "clearTimeout h s = s\<lparr>timers := filter (\<lambda>(h', due). Some h' \<noteq> h) (timers s)\<rparr>"

definition setTimeout :: "nat \<Rightarrow> provider \<Rightarrow> nat \<times> provider" where
  "setTimeout delay s =
     (nextTimer s,
      s\<lparr>timers := timers s @ [(nextTimer s, now s + delay)], nextTimer := Suc (nextTimer s)\<rparr>)"

text \<open>The callback given to \<^verbatim>\<open>registerForFlutterOutline\<close>.\<close>

definition onFlutterOutline :: "provider \<Rightarrow> flutterOutlineNotification \<Rightarrow> provider" where
  "onFlutterOutline s n =
     (case activeEditor s of
        None \<Rightarrow> s
      | Some editor \<Rightarrow>
          if file' n = fileName (document editor) then
            (let s = s\<lparr>flutterOutline := Some n\<rparr>;
                 s = s\<lparr>treeNodesByLine := Map.empty\<rparr>;
                 s = clearTimeout (updateTimeout s) s;
                 (h, s) = setTimeout 200 s
             in s\<lparr>updateTimeout := Some h\<rparr>)
          else s)"

text \<open>
  The event loop reaching time \<open>t\<close>: the timers due by then are taken off the pending
  list and their callback, \<^verbatim>\<open>update\<close>, runs once for each.
\<close>

definition isDue :: "nat \<Rightarrow> nat \<times> nat \<Rightarrow> bool" where
  "isDue t timer \<longleftrightarrow> snd timer \<le> t"

definition advanceTo :: "nat \<Rightarrow> provider \<Rightarrow> provider" where
  "advanceTo t s =
     fold (\<lambda>timer. update) (filter (isDue t) (timers s))
       (s\<lparr>now := max (now s) t, timers := filter (\<lambda>timer. \<not> isDue t timer) (timers s)\<rparr>)"

text \<open>Notifications arriving at given times, each after the timers due by its time.\<close>

fun deliver :: "(nat \<times> flutterOutlineNotification) list \<Rightarrow> provider \<Rightarrow> provider" where
  "deliver [] s = s"
| "deliver ((t, n) # es) s = deliver es (onFlutterOutline (advanceTo t s) n)"

text \<open>Successive times less than 200 ms apart.\<close>

fun closeTimes :: "nat \<Rightarrow> nat list \<Rightarrow> bool" where
  "closeTimes prev [] = True"
| "closeTimes prev (t # ts) = (prev \<le> t \<and> t < prev + 200 \<and> closeTimes t ts)"

subsection \<open>setTrackingFile and the constructor\<close>

text \<open>\<^verbatim>\<open>isAnalyzable\<close> is imported from \<^verbatim>\<open>utils\<close> and is a parameter here.\<close>

definition setTrackingFile ::
  "(textDocument \<Rightarrow> bool) \<Rightarrow> provider \<Rightarrow> textEditor option \<Rightarrow> provider" where
  "setTrackingFile isAnalyzable s editor =
     (case editor of
        None \<Rightarrow> (hideTree s)\<lparr>activeEditor := None\<rparr>
      | Some e \<Rightarrow>
          if isAnalyzable (document e) then
            (let s = s\<lparr>activeEditor := Some e\<rparr>;
                 s = s\<lparr>flutterOutline := None\<rparr>
             in s\<lparr>effects := effects s @ [ForceNotificationsFor (fileName (document e))]\<rparr>)
          else (hideTree s)\<lparr>activeEditor := None\<rparr>)"

definition initial :: provider where
  "initial = \<lparr>activeEditor = None, flutterOutline = None, treeNodesByLine = Map.empty,
     updateTimeout = None, now = 0, timers = [], nextTimer = 0, effects = []\<rparr>"

definition constructor :: "(textDocument \<Rightarrow> bool) \<Rightarrow> textEditor option \<Rightarrow> provider" where
  "constructor isAnalyzable activeTextEditor =
     (case activeTextEditor of
        None \<Rightarrow> initial
      | Some e \<Rightarrow> setTrackingFile isAnalyzable initial (Some e))"

subsection \<open>highlightNodeAt\<close>

text \<open>
  \<^verbatim>\<open>item.outline.offset + item.outline.length > offset\<close> is false when the length is
  missing (the sum is \<^verbatim>\<open>NaN\<close>).
\<close>

definition containsOffset :: "int \<Rightarrow> flutterWidgetItem \<Rightarrow> bool" where
  "containsOffset off item =
     (offset (outline item) < off
      \<and> (case length' (outline item) of
            None \<Rightarrow> False
          | Some len \<Rightarrow> offset (outline item) + len > off))"

definition highlightNodeAt :: "provider \<Rightarrow> position \<Rightarrow> error + provider" where
  "highlightNodeAt s pos =
     (case treeNodesByLine s (line pos) of
        None \<Rightarrow> Inr s
      | Some items \<Rightarrow>
          (case activeEditor s of
             None \<Rightarrow> Inl TypeError
           | Some editor \<Rightarrow>
               (let off = offsetAt (document editor) pos
                in case find (containsOffset off) items of
                     None \<Rightarrow> Inr s
                   | Some item \<Rightarrow> Inr (s\<lparr>effects := effects s @ [Reveal item]\<rparr>))))"

text \<open>The listener of \<^verbatim>\<open>onDidChangeTextEditorSelection\<close>.\<close>

definition onDidChangeTextEditorSelection :: "provider \<Rightarrow> selection list \<Rightarrow> error + provider" where
  "onDidChangeTextEditorSelection s selections =
     (case selections of
        [] \<Rightarrow> Inr s
      | sel # _ \<Rightarrow> highlightNodeAt s (start sel))"

subsection \<open>getChildren\<close>

text \<open>
  \<^verbatim>\<open>getFixes\<close> reads \<^verbatim>\<open>editor.document\<close>, which raises when there is no editor.
  The host's answer is the parameter \<open>cap\<close>. Here the \<^verbatim>\<open>await\<close> is a call: this is
  \<^verbatim>\<open>getChildren\<close> when nothing else runs between a request and its answer. The call
  as it is suspended at the \<^verbatim>\<open>await\<close> and resumed later is given further down.
\<close>

definition zeroRangeAt :: "textDocument \<Rightarrow> flutterOutline \<Rightarrow> vs_range" where
  "zeroRangeAt doc ol = (let pos = positionAt doc (offset ol) in \<lparr>start = pos, end' = pos\<rparr>)"

definition getFixes ::
  "codeActionProvider \<Rightarrow> textEditor option \<Rightarrow> flutterOutline \<Rightarrow> provider
   \<Rightarrow> provider \<times> (error + commandOrCodeAction list)" where
  "getFixes cap editor ol s =
     (case editor of
        None \<Rightarrow> (s, Inl TypeError)
      | Some e \<Rightarrow>
          (let range = zeroRangeAt (document e) ol
           in (s\<lparr>effects := effects s @ [ExecuteCodeActionProvider (uri (document e)) range]\<rparr>,
               Inr (cap (uri (document e)) range))))"

text \<open>The two filters: instances of \<^verbatim>\<open>vs.CodeAction\<close>, then those whose kind is there
  and has a non-empty value.\<close>

definition codeActionsOf :: "commandOrCodeAction list \<Rightarrow> codeAction list" where
  "codeActionsOf fs = List.map_filter (\<lambda>f. case f of IsCodeAction ca \<Rightarrow> Some ca | IsCommand _ \<Rightarrow> None) fs"

definition hasKind :: "codeAction \<Rightarrow> bool" where
  "hasKind ca = (case codeAction.kind ca of None \<Rightarrow> False | Some k \<Rightarrow> value' k \<noteq> [])"

definition codeActionFixes :: "commandOrCodeAction list \<Rightarrow> codeAction list" where
  "codeActionFixes fs = filter hasKind (codeActionsOf fs)"

text \<open>Pushing a node on the list of its line, creating the list when the line has none.\<close>

definition addNode :: "nat \<Rightarrow> flutterWidgetItem \<Rightarrow> provider \<Rightarrow> provider" where
  "addNode ln node s =
     (let s = (if treeNodesByLine s ln = None
               then s\<lparr>treeNodesByLine := (treeNodesByLine s)(ln \<mapsto> [])\<rparr> else s)
      in s\<lparr>treeNodesByLine := (treeNodesByLine s)(ln \<mapsto> the (treeNodesByLine s ln) @ [node])\<rparr>)"

text \<open>The body of the loop over the children, for the child \<open>c\<close>.\<close>

definition childStep ::
  "codeActionProvider \<Rightarrow> flutterWidgetItem option \<Rightarrow> textEditor option \<Rightarrow> flutterOutline
   \<Rightarrow> flutterWidgetItem list \<Rightarrow> provider \<Rightarrow> provider \<times> (error + flutterWidgetItem list)" where
  "childStep cap elem editor c items s =
     (let canHaveFixes = isWidget c;
          (s, fixes) = (if canHaveFixes then getFixes cap editor c s else (s, Inr []))
      in case fixes of
           Inl err \<Rightarrow> (s, Inl err)
         | Inr fs \<Rightarrow>
             (case editor of
                None \<Rightarrow> (s, Inr items)
              | Some e \<Rightarrow>
                  if \<not> isClosed (document e) then
                    (let node = newFlutterWidgetItem elem c (codeActionFixes fs) e;
                         items = items @ [node]
                     in case activeEditor s of
                          None \<Rightarrow> (s, Inl TypeError)
                        | Some active \<Rightarrow>
                            (let ln = line (positionAt (document active) (offset c))
                             in (addNode ln node s, Inr items)))
                  else (s, Inr items)))"

fun childrenLoop ::
  "codeActionProvider \<Rightarrow> flutterWidgetItem option \<Rightarrow> textEditor option \<Rightarrow> flutterOutline list
   \<Rightarrow> flutterWidgetItem list \<Rightarrow> provider \<Rightarrow> provider \<times> (error + flutterWidgetItem list)" where
  "childrenLoop cap elem editor [] items s = (s, Inr items)"
| "childrenLoop cap elem editor (c # cs) items s =
     (case childStep cap elem editor c items s of
        (s', Inl err) \<Rightarrow> (s', Inl err)
      | (s', Inr items') \<Rightarrow> childrenLoop cap elem editor cs items' s')"

text \<open>The outline \<^verbatim>\<open>getChildren\<close> works on: the element's, or the stored one's.\<close>

definition outlineOf :: "provider \<Rightarrow> flutterWidgetItem option \<Rightarrow> flutterOutline option" where
  "outlineOf s elem =
     (case elem of
        Some e \<Rightarrow> Some (outline e)
      | None \<Rightarrow>
          (case flutterOutline s of
             Some n \<Rightarrow> flutterOutlineNotification.outline n
           | None \<Rightarrow> None))"

text \<open>\<^verbatim>\<open>outline.length\<close> as a condition: false when missing or zero.\<close>

definition truthyLength :: "flutterOutline \<Rightarrow> bool" where
  "truthyLength ol = (case length' ol of None \<Rightarrow> False | Some len \<Rightarrow> len \<noteq> 0)"

definition getChildren ::
  "codeActionProvider \<Rightarrow> provider \<Rightarrow> flutterWidgetItem option
   \<Rightarrow> provider \<times> (error + flutterWidgetItem list)" where
  "getChildren cap s elem =
     (let editor = activeEditor s
      in case outlineOf s elem of
           None \<Rightarrow> (s, Inr [])
         | Some ol \<Rightarrow>
             (case children ol of
                None \<Rightarrow> (s, Inr [])
              | Some cs \<Rightarrow>
                  if truthyLength ol then childrenLoop cap elem editor cs [] s
                  else (s, Inr [])))"

definition getParent :: "flutterWidgetItem \<Rightarrow> flutterWidgetItem option" where
  "getParent elem = parent elem"

definition getTreeItem :: "flutterWidgetItem \<Rightarrow> flutterWidgetItem" where
  "getTreeItem elem = elem"

subsection \<open>The conditions of update, as the specification names them\<close>

definition storedFileDiffers :: "provider \<Rightarrow> bool" where
  "storedFileDiffers s =
     (case flutterOutline s of
        None \<Rightarrow> False
      | Some n \<Rightarrow>
          (case activeEditor s of
             None \<Rightarrow> False
           | Some editor \<Rightarrow> file' n \<noteq> fileName (document editor)))"

text \<open>The children of the stored outline's root; none when the root or its list of
  children is missing.\<close>

definition rootChildren :: "provider \<Rightarrow> flutterOutline list" where
  "rootChildren s =
     (case flutterOutline s of
        None \<Rightarrow> []
      | Some n \<Rightarrow>
          (case flutterOutlineNotification.outline n of
             None \<Rightarrow> []
           | Some ol \<Rightarrow> (case children ol of None \<Rightarrow> [] | Some cs \<Rightarrow> cs)))"

subsection \<open>What getChildren computes when there is an editor\<close>

text \<open>The children \<^verbatim>\<open>getChildren\<close> loops over: those of the outline it works on, when
  the guard \<^verbatim>\<open>outline.children && outline.length\<close> lets it in.\<close>

definition loopedChildren :: "provider \<Rightarrow> flutterWidgetItem option \<Rightarrow> flutterOutline list" where
  "loopedChildren s elem =
     (case outlineOf s elem of
        None \<Rightarrow> []
      | Some ol \<Rightarrow>
          (case children ol of
             None \<Rightarrow> []
           | Some cs \<Rightarrow> if truthyLength ol then cs else []))"

text \<open>The request \<^verbatim>\<open>getFixes\<close> logs for a child, and the state after the first
  statements of the loop body.\<close>

definition requestFor :: "textEditor \<Rightarrow> flutterOutline \<Rightarrow> effect" where
  "requestFor editor c =
     ExecuteCodeActionProvider (uri (document editor)) (zeroRangeAt (document editor) c)"

definition requested :: "textEditor \<Rightarrow> flutterOutline \<Rightarrow> provider \<Rightarrow> provider" where
  "requested editor c s =
     (if isWidget c then s\<lparr>effects := effects s @ [requestFor editor c]\<rparr> else s)"

text \<open>The item the loop body builds for a child.\<close>

definition itemFor ::
  "codeActionProvider \<Rightarrow> flutterWidgetItem option \<Rightarrow> textEditor \<Rightarrow> flutterOutline
   \<Rightarrow> flutterWidgetItem" where
  "itemFor cap elem editor c =
     newFlutterWidgetItem elem c
       (codeActionFixes
          (if isWidget c then cap (uri (document editor)) (zeroRangeAt (document editor) c)
           else []))
       editor"

text \<open>The items stored for a line.\<close>

definition nodesAt :: "provider \<Rightarrow> nat \<Rightarrow> flutterWidgetItem set" where
  "nodesAt s ln = (case treeNodesByLine s ln of None \<Rightarrow> {} | Some items \<Rightarrow> set items)"

subsection \<open>getChildren suspended and resumed\<close>

text \<open>
  \<^verbatim>\<open>getChildren\<close> is an \<^verbatim>\<open>async\<close> function. Called, it runs up to
  \<^verbatim>\<open>await getFixes(editor, c)\<close>, after \<^verbatim>\<open>getFixes\<close> has sent its request; it is
  resumed with the answer later, and until then other listeners run, the notification
  handler among them. Only a child that can have fixes is awaited: for any other child
  the loop goes on at once with no fixes.

  \<open>afterFixes\<close> is the loop body from the test of the editor to the push on the line's
  list, for the child \<open>c\<close> and the answer \<open>fs\<close>. The editor tested is the one the call
  read when it started; the line is taken in the document of the editor that is active
  when the body runs.
\<close>

definition afterFixes ::
  "flutterWidgetItem option \<Rightarrow> textEditor option \<Rightarrow> flutterOutline \<Rightarrow> commandOrCodeAction list
   \<Rightarrow> flutterWidgetItem list \<Rightarrow> provider \<Rightarrow> provider \<times> (error + flutterWidgetItem list)" where
  "afterFixes elem editor c fs items s =
     (case editor of
        None \<Rightarrow> (s, Inr items)
      | Some e \<Rightarrow>
          if \<not> isClosed (document e) then
            (let node = newFlutterWidgetItem elem c (codeActionFixes fs) e;
                 items = items @ [node]
             in case activeEditor s of
                  None \<Rightarrow> (s, Inl TypeError)
                | Some active \<Rightarrow>
                    (let ln = line (positionAt (document active) (offset c))
                     in (addNode ln node s, Inr items)))
          else (s, Inr items))"

text \<open>
  The locals of a call suspended at the \<^verbatim>\<open>await\<close>: the element and the editor of the
  call, the child whose fixes are awaited, the children still to come and the items
  built so far.
\<close>

datatype pending = Pending
  (pElement: "flutterWidgetItem option")
  (pEditor: "textEditor option")
  (pChild: flutterOutline)
  (pRest: "flutterOutline list")
  (pChildren: "flutterWidgetItem list")

datatype outcome = Suspended pending | Returned "flutterWidgetItem list" | Raised error

text \<open>The loop from the child at the head of the list up to the next \<^verbatim>\<open>await\<close>, or to
  its end.\<close>

fun loopUntilAwait ::
  "flutterWidgetItem option \<Rightarrow> textEditor option \<Rightarrow> flutterOutline list
   \<Rightarrow> flutterWidgetItem list \<Rightarrow> provider \<Rightarrow> provider \<times> outcome" where
  "loopUntilAwait elem editor [] items s = (s, Returned items)"
| "loopUntilAwait elem editor (c # cs) items s =
     (if isWidget c then
        (case editor of
           None \<Rightarrow> (s, Raised TypeError)
         | Some e \<Rightarrow>
             (s\<lparr>effects := effects s @ [requestFor e c]\<rparr>,
              Suspended (Pending elem editor c cs items)))
      else
        (case afterFixes elem editor c [] items s of
           (s', Inl err) \<Rightarrow> (s', Raised err)
         | (s', Inr items') \<Rightarrow> loopUntilAwait elem editor cs items' s'))"

definition startGetChildren :: "provider \<Rightarrow> flutterWidgetItem option \<Rightarrow> provider \<times> outcome" where
  "startGetChildren s elem =
     (let editor = activeEditor s
      in case outlineOf s elem of
           None \<Rightarrow> (s, Returned [])
         | Some ol \<Rightarrow>
             (case children ol of
                None \<Rightarrow> (s, Returned [])
              | Some cs \<Rightarrow>
                  if truthyLength ol then loopUntilAwait elem editor cs [] s
                  else (s, Returned [])))"

definition resumeGetChildren ::
  "pending \<Rightarrow> commandOrCodeAction list \<Rightarrow> provider \<Rightarrow> provider \<times> outcome" where
  "resumeGetChildren p fs s =
     (case afterFixes (pElement p) (pEditor p) (pChild p) fs (pChildren p) s of
        (s', Inl err) \<Rightarrow> (s', Raised err)
      | (s', Inr items') \<Rightarrow> loopUntilAwait (pElement p) (pEditor p) (pRest p) items' s')"

text \<open>
  What can happen to the provider, one event at a time: a notification of the analysis
  server; time passing, with the timers that fall due; a call of \<^verbatim>\<open>getChildren\<close> by the
  tree; the answer to the request of the suspended call number \<open>k\<close>, or its rejection
  (an answer that is no list comes to the same: the filter raises and the call ends);
  another editor, or none, becoming the active one; the active document changing, in its
  text or by being closed. A document is one object shared by the editors on it, so a
  change of the document shows in every editor held on it, those of suspended calls too.
\<close>

datatype event =
    Notification flutterOutlineNotification
  | TimePassed nat
  | Called "flutterWidgetItem option"
  | Answered nat "commandOrCodeAction list"
  | Rejected nat
  | ActiveEditorChanged "textEditor option"
  | DocumentChanged textDocument

definition dropCall :: "nat \<Rightarrow> pending list \<Rightarrow> pending list" where
  "dropCall k ps = take k ps @ drop (Suc k) ps"

definition settle :: "nat \<Rightarrow> pending list \<Rightarrow> provider \<times> outcome \<Rightarrow> provider \<times> pending list" where
  "settle k ps r =
     (case r of
        (s, Suspended p) \<Rightarrow> (s, ps[k := p])
      | (s, Returned items) \<Rightarrow> (s, dropCall k ps)
      | (s, Raised err) \<Rightarrow> (s, dropCall k ps))"

definition reviseEditor :: "textDocument \<Rightarrow> textEditor \<Rightarrow> textEditor" where
  "reviseEditor doc e = (if uri (document e) = uri doc then e\<lparr>document := doc\<rparr> else e)"

definition revisePending :: "textDocument \<Rightarrow> pending \<Rightarrow> pending" where
  "revisePending doc p =
     Pending (pElement p) (map_option (reviseEditor doc) (pEditor p)) (pChild p) (pRest p)
       (pChildren p)"

fun step ::
  "(textDocument \<Rightarrow> bool) \<Rightarrow> event \<Rightarrow> provider \<times> pending list \<Rightarrow> provider \<times> pending list" where
  "step isAnalyzable (Notification n) (s, ps) = (onFlutterOutline s n, ps)"
| "step isAnalyzable (TimePassed t) (s, ps) = (advanceTo t s, ps)"
| "step isAnalyzable (Called elem) (s, ps) =
     (case startGetChildren s elem of
        (s', Suspended p) \<Rightarrow> (s', ps @ [p])
      | (s', Returned items) \<Rightarrow> (s', ps)
      | (s', Raised err) \<Rightarrow> (s', ps))"
| "step isAnalyzable (Answered k fs) (s, ps) =
     (if k < length ps then settle k ps (resumeGetChildren (ps ! k) fs s) else (s, ps))"
| "step isAnalyzable (Rejected k) (s, ps) = (s, dropCall k ps)"
| "step isAnalyzable (ActiveEditorChanged e) (s, ps) = (setTrackingFile isAnalyzable s e, ps)"
| "step isAnalyzable (DocumentChanged doc) (s, ps) =
     (s\<lparr>activeEditor := map_option (reviseEditor doc) (activeEditor s)\<rparr>,
      map (revisePending doc) ps)"

fun schedule ::
  "(textDocument \<Rightarrow> bool) \<Rightarrow> event list \<Rightarrow> provider \<times> pending list
   \<Rightarrow> provider \<times> pending list" where
  "schedule isAnalyzable [] w = w"
| "schedule isAnalyzable (ev # evs) w = schedule isAnalyzable evs (step isAnalyzable ev w)"

subsection \<open>Invariants of the provider\<close>

text \<open>Every stored item is stored under the line of its outline's offset in the active
  editor's document; without an active editor nothing is stored.\<close>

definition linesAgree :: "provider \<Rightarrow> bool" where
  "linesAgree s =
     (case activeEditor s of
        None \<Rightarrow> \<forall>ln. nodesAt s ln = {}
      | Some editor \<Rightarrow>
          \<forall>ln. \<forall>item\<in>nodesAt s ln.
            line (positionAt (document editor) (offset (outline item))) = ln)"

text \<open>The nodes of an outline: the outline itself and the nodes of its children.\<close>

fun outlineNodes :: "flutterOutline \<Rightarrow> flutterOutline list" where
  "outlineNodes (FlutterOutline k off len de vn cn lb cs) =
     FlutterOutline k off len de vn cn lb cs
     # (case cs of None \<Rightarrow> [] | Some xs \<Rightarrow> concat (map outlineNodes xs))"

definition currentNodes :: "provider \<Rightarrow> flutterOutline set" where
  "currentNodes s =
     (case flutterOutline s of
        None \<Rightarrow> {}
      | Some n \<Rightarrow>
          (case flutterOutlineNotification.outline n of
             None \<Rightarrow> {}
           | Some root \<Rightarrow> set (outlineNodes root)))"

text \<open>Every stored item is for a node of the stored outline.\<close>

definition storedCurrent :: "provider \<Rightarrow> bool" where
  "storedCurrent s \<longleftrightarrow> (\<forall>ln. \<forall>item\<in>nodesAt s ln. outline item \<in> currentNodes s)"






text \<open>Every pending timer is the one whose handle \<^verbatim>\<open>updateTimeout\<close> holds.\<close>

definition timersInv :: "provider \<Rightarrow> bool" where
  "timersInv s \<longleftrightarrow> (\<forall>timer\<in>set (timers s). updateTimeout s = Some (fst timer))"

text \<open>A burst in progress: the last notification \<open>n\<close> came at time \<open>t\<close>, its timer is the
  only one pending, and the log is still \<open>log\<close>.\<close>

definition inBurst ::
  "textEditor \<Rightarrow> effect list \<Rightarrow> nat \<Rightarrow> flutterOutlineNotification \<Rightarrow> provider \<Rightarrow> bool" where
  "inBurst editor log t n s \<longleftrightarrow>
     activeEditor s = Some editor \<and> flutterOutline s = Some n
     \<and> treeNodesByLine s = Map.empty
     \<and> (\<exists>h. timers s = [(h, t + 200)] \<and> updateTimeout s = Some h)
     \<and> now s = t \<and> effects s = log"

subsection \<open>Example data\<close>

text \<open>
  A document of lines ten characters long, an editor on it, and an outline: a root
  whose child is a column at offset 5, with a text widget at offset 12 and a Dart element
  at offset 25. The example code-action provider answers every request with a command, a
  code action with a kind, one without a kind and one whose kind has the empty value.
\<close>

definition exDocument :: textDocument where
  "exDocument = \<lparr>fileName = utf16 ''/main.dart'', uri = utf16 ''file:///main.dart'',
     isClosed = False,
     positionAt = (\<lambda>i. \<lparr>line = nat (i div 10), character = nat (i mod 10)\<rparr>),
     offsetAt = (\<lambda>p. int (line p * 10 + character p))\<rparr>"

definition exEditor :: textEditor where
  "exEditor = \<lparr>document = exDocument\<rparr>"

definition exText :: flutterOutline where
  "exText = FlutterOutline (utf16 ''NEW_INSTANCE'') 12 (Some 6) None None
     (Some (utf16 ''Text'')) None None"

definition exBuild :: flutterOutline where
  "exBuild = FlutterOutline (utf16 ''DART_ELEMENT'') 25 (Some 4)
     (Some \<lparr>name = utf16 ''build'', typeParameters = None, parameters = Some (utf16 ''()''),
            returnType = None, location_offset = 25\<rparr>)
     None None None None"

definition exColumn :: flutterOutline where
  "exColumn = FlutterOutline (utf16 ''NEW_INSTANCE'') 5 (Some 40) None None
     (Some (utf16 ''Column'')) None (Some [exText, exBuild])"

definition exRoot :: flutterOutline where
  "exRoot = FlutterOutline (utf16 ''DART_ELEMENT'') 0 (Some 60) None None None None
     (Some [exColumn])"

definition exNotification :: flutterOutlineNotification where
  "exNotification = \<lparr>file' = utf16 ''/main.dart'', outline = Some exRoot\<rparr>"

definition exWrap :: codeAction where
  "exWrap = CodeAction (utf16 ''Wrap'') (Some (CodeActionKind (utf16 ''refactor.wrap'')))"

definition exCap :: codeActionProvider where
  "exCap u r = [IsCommand (utf16 ''sort''), IsCodeAction exWrap,
     IsCodeAction (CodeAction (utf16 ''a'') None),
     IsCodeAction (CodeAction (utf16 ''b'') (Some (CodeActionKind [])))]"

text \<open>In the examples the only analyzable document is the example document. The
  provider is constructed while its editor is the active one, and has no outline yet.\<close>

definition exIsAnalyzable :: "textDocument \<Rightarrow> bool" where
  "exIsAnalyzable doc \<longleftrightarrow> fileName doc = utf16 ''/main.dart''"

definition exTracking :: provider where
  "exTracking = constructor exIsAnalyzable (Some exEditor)"

text \<open>The provider after the example notification, and the items of the outline.\<close>

definition exLoaded :: provider where
  "exLoaded = onFlutterOutline exTracking exNotification"

definition exColumnItem :: flutterWidgetItem where
  "exColumnItem = FlutterWidgetItem None exColumn [exWrap] (utf16 ''Column'') Expanded"

definition exTextItem :: "flutterWidgetItem option \<Rightarrow> flutterWidgetItem" where
  "exTextItem p = FlutterWidgetItem p exText [exWrap] (utf16 ''Text'') NoneState"

definition exBuildItem :: "flutterWidgetItem option \<Rightarrow> flutterWidgetItem" where
  "exBuildItem p = FlutterWidgetItem p exBuild [] (utf16 ''build()'') NoneState"

text \<open>A node of length zero that has a child, and an item for it.\<close>

definition exZero :: flutterOutline where
  "exZero = FlutterOutline (utf16 ''NEW_INSTANCE'') 50 (Some 0) None None
     (Some (utf16 ''Row'')) None (Some [exText])"

definition exZeroItem :: flutterWidgetItem where
  "exZeroItem = FlutterWidgetItem None exZero [] (utf16 ''Row'') Expanded"

text \<open>The provider once the deferred update has run and the tree has asked for the top
  level, and a later outline of the same file without the column.\<close>

definition exShown :: provider where
  "exShown = fst (getChildren exCap (advanceTo 200 exLoaded) None)"

definition exRoot2 :: flutterOutline where
  "exRoot2 = FlutterOutline (utf16 ''DART_ELEMENT'') 0 (Some 30) None None None None
     (Some [exBuild])"

definition exNotification2 :: flutterOutlineNotification where
  "exNotification2 = \<lparr>file' = utf16 ''/main.dart'', outline = Some exRoot2\<rparr>"

text \<open>An editor on a document that is not analyzable.\<close>

definition exReadme :: textEditor where
  "exReadme = \<lparr>document = exDocument\<lparr>fileName := utf16 ''/README.md'',
     uri := utf16 ''file:///README.md''\<rparr>\<rparr>"


text \<open>The tree asks for the children of the column's item after the newer outline has
  arrived.\<close>

definition exStale :: provider where
  "exStale = fst (schedule exIsAnalyzable
     [Notification exNotification, Called None,
      Answered 0 (exCap [] (zeroRangeAt exDocument exColumn)),
      Notification exNotification2, Called (Some exColumnItem),
      Answered 0 (exCap [] (zeroRangeAt exDocument exText))]
     (exTracking, []))"


text \<open>The example document after a line has been put in at its top.\<close>

definition exEdited :: textDocument where
  "exEdited = exDocument\<lparr>
     positionAt := (\<lambda>i. \<lparr>line = nat (i div 10) + 1, character = nat (i mod 10)\<rparr>),
     offsetAt := (\<lambda>p. int ((line p - 1) * 10 + character p))\<rparr>"

text \<open>The user moves from the shown Dart file to the file that is not analyzable.\<close>

definition exSwitched :: provider where
  "exSwitched = setTrackingFile exIsAnalyzable exShown (Some exReadme)"

section \<open>Properties\<close>

subsection \<open>Strings\<close>

lemma utf16_space: "utf16 '' '' = [0x20]"
  by (simp add: utf16_def)

lemma isWhiteSpace_space: "isWhiteSpace 0x20"
  by (simp add: isWhiteSpace_def)

lemma trim_Nil: "trim [] = []"
  by (simp add: trim_def)

lemma trim_leading_space: "trim (0x20 # s) = trim s"
  by (simp add: trim_def isWhiteSpace_space)

text \<open>Prefixing every part with a space, as the source does, and separating the parts
  by a space give the same string once it is trimmed.\<close>

lemma spaceSeparated_Cons:
  "spaceSeparated (p # ps) = p @ concat (map (\<lambda>q. 0x20 # q) ps)"
  by (induction ps arbitrary: p) simp_all

lemma trim_prefixed: "trim (concat (map (\<lambda>p. 0x20 # p) ps)) = trim (spaceSeparated ps)"
proof (cases ps)
  case Nil
  then show ?thesis by simp
next
  case (Cons p qs)
  then show ?thesis
    by (simp add: spaceSeparated_Cons trim_leading_space)
qed

lemma appendIf_present: "appendIf lbl prefix x = lbl @ concat (map (\<lambda>v. prefix @ v) (present x))"
  by (simp add: appendIf_def present_def)

lemma getLabel_prefixed:
  "getLabel ol = trim (concat (map (\<lambda>p. 0x20 # p) (labelParts ol)))"
  by (cases "dartElement ol")
     (simp_all add: getLabel_def labelParts_def elementPart_def appendIf_present utf16_space
        Let_def)

text \<open>
  C6. The label of an outline node is its parts in order (the element's name directly
  followed by its type parameters, its parameters and, after an arrow, its return
  type; then the variable name, the class name and the label), each part taken when the
  source's test of it succeeds, separated by one space, and trimmed. A node with none of
  these has the empty label.
\<close>

theorem getLabel_spec:
  "getLabel ol = labelSpec ol
   \<and> (dartElement ol = None \<and> variableName ol = None \<and> className ol = None
        \<and> flutterOutline.label ol = None \<longrightarrow> getLabel ol = [])"
proof
  show "getLabel ol = labelSpec ol"
    by (simp only: getLabel_prefixed labelSpec_def trim_prefixed)
  show "dartElement ol = None \<and> variableName ol = None \<and> className ol = None
        \<and> flutterOutline.label ol = None \<longrightarrow> getLabel ol = []"
    by (simp add: getLabel_prefixed labelParts_def present_def truthy_def trim_Nil)
qed

theorem getLabel_spec_witness:
  "getLabel (FlutterOutline (utf16 ''NEW_INSTANCE'') 10 (Some 5) None None None None None) = []
   \<and> getLabel (FlutterOutline (utf16 ''DART_ELEMENT'') 0 (Some 9)
        (Some \<lparr>name = utf16 ''build'', typeParameters = None,
               parameters = Some (utf16 ''(c)''), returnType = Some (utf16 ''Widget''),
               location_offset = 3\<rparr>)
        None (Some (utf16 ''Text '')) None None)
     = utf16 ''build(c)'' @ [0x20, 0x2192, 0x20] @ utf16 ''Widget Text''"
  using getLabel_spec [of "FlutterOutline (utf16 ''NEW_INSTANCE'') 10 (Some 5) None None None None None"]
    getLabel_spec [of "FlutterOutline (utf16 ''DART_ELEMENT'') 0 (Some 9)
        (Some \<lparr>name = utf16 ''build'', typeParameters = None,
               parameters = Some (utf16 ''(c)''), returnType = Some (utf16 ''Widget''),
               location_offset = 3\<rparr>)
        None (Some (utf16 ''Text '')) None None"]
  by (simp add: labelSpec_def labelParts_def elementPart_def present_def truthy_def trim_def
      utf16_def isWhiteSpace_def)

subsection \<open>The loop of getChildren\<close>

lemma codeActionFixes_Nil: "codeActionFixes [] = []"
  by (simp add: codeActionFixes_def codeActionsOf_def)

lemma childStep_active:
  "activeEditor s = Some editor \<Longrightarrow>
   childStep cap elem (Some editor) c items s =
     (if isClosed (document editor) then (requested editor c s, Inr items)
      else (addNode (line (positionAt (document editor) (offset c))) (itemFor cap elem editor c)
              (requested editor c s),
            Inr (items @ [itemFor cap elem editor c])))"
  by (simp add: childStep_def getFixes_def requested_def requestFor_def itemFor_def
      codeActionFixes_Nil Let_def)

lemma childStep_no_editor:
  "childStep cap elem None c items s = (s, if isWidget c then Inl TypeError else Inr items)"
  by (simp add: childStep_def getFixes_def)

lemma childrenLoop_no_editor: "fst (childrenLoop cap elem None cs items s) = s"
  by (induction cs arbitrary: items) (simp_all add: childStep_no_editor)

lemma requested_fields:
  "activeEditor (requested editor c s) = activeEditor s"
  "flutterOutline (requested editor c s) = flutterOutline s"
  "treeNodesByLine (requested editor c s) = treeNodesByLine s"
  "updateTimeout (requested editor c s) = updateTimeout s"
  "timers (requested editor c s) = timers s"
  "now (requested editor c s) = now s"
  "nextTimer (requested editor c s) = nextTimer s"
  "effects (requested editor c s) = effects s @ (if isWidget c then [requestFor editor c] else [])"
  by (simp_all add: requested_def)

lemma addNode_fields:
  "activeEditor (addNode ln node s) = activeEditor s"
  "flutterOutline (addNode ln node s) = flutterOutline s"
  "updateTimeout (addNode ln node s) = updateTimeout s"
  "timers (addNode ln node s) = timers s"
  "now (addNode ln node s) = now s"
  "nextTimer (addNode ln node s) = nextTimer s"
  "effects (addNode ln node s) = effects s"
  by (simp_all add: addNode_def Let_def)

lemma nodesAt_addNode:
  "nodesAt (addNode ln node s) l = nodesAt s l \<union> (if l = ln then {node} else {})"
  by (auto simp: nodesAt_def addNode_def Let_def split: option.splits)

lemma nodesAt_requested: "nodesAt (requested editor c s) l = nodesAt s l"
  by (simp add: nodesAt_def requested_fields)

lemma childrenLoop_active:
  "activeEditor s = Some editor \<Longrightarrow>
   \<exists>s'. childrenLoop cap elem (Some editor) cs items s =
          (s', Inr (items @ (if isClosed (document editor) then []
                             else map (itemFor cap elem editor) cs)))
      \<and> effects s' = effects s @ map (requestFor editor) (filter isWidget cs)
      \<and> activeEditor s' = activeEditor s \<and> flutterOutline s' = flutterOutline s
      \<and> updateTimeout s' = updateTimeout s \<and> timers s' = timers s \<and> now s' = now s
      \<and> nextTimer s' = nextTimer s
      \<and> (\<forall>l. nodesAt s' l = nodesAt s l \<union>
            (if isClosed (document editor) then {}
             else {itemFor cap elem editor c | c.
                     c \<in> set cs \<and> line (positionAt (document editor) (offset c)) = l}))"
proof (induction cs arbitrary: items s)
  case Nil
  then show ?case by simp
next
  case (Cons c cs)
  show ?case
  proof (cases "isClosed (document editor)")
    case True
    have a: "activeEditor (requested editor c s) = Some editor"
      using Cons.prems by (simp add: requested_fields)
    from Cons.IH [OF a, of items] obtain s' where
      "childrenLoop cap elem (Some editor) cs items (requested editor c s) = (s', Inr items)"
      and rest: "effects s' = effects (requested editor c s) @ map (requestFor editor) (filter isWidget cs)"
        "activeEditor s' = activeEditor (requested editor c s)"
        "flutterOutline s' = flutterOutline (requested editor c s)"
        "updateTimeout s' = updateTimeout (requested editor c s)"
        "timers s' = timers (requested editor c s)" "now s' = now (requested editor c s)"
        "nextTimer s' = nextTimer (requested editor c s)"
        "\<forall>l. nodesAt s' l = nodesAt (requested editor c s) l"
      using True by auto
    then show ?thesis
      using True Cons.prems by (simp add: childStep_active requested_fields nodesAt_requested)
  next
    case False
    let ?ln = "line (positionAt (document editor) (offset c))"
    let ?s1 = "addNode ?ln (itemFor cap elem editor c) (requested editor c s)"
    have a: "activeEditor ?s1 = Some editor"
      using Cons.prems by (simp add: requested_fields addNode_fields)
    from Cons.IH [OF a, of "items @ [itemFor cap elem editor c]"] obtain s' where
      loop: "childrenLoop cap elem (Some editor) cs (items @ [itemFor cap elem editor c]) ?s1
         = (s', Inr (items @ itemFor cap elem editor c # map (itemFor cap elem editor) cs))"
      and rest: "effects s' = effects ?s1 @ map (requestFor editor) (filter isWidget cs)"
        "activeEditor s' = activeEditor ?s1"
        "flutterOutline s' = flutterOutline ?s1"
        "updateTimeout s' = updateTimeout ?s1"
        "timers s' = timers ?s1" "now s' = now ?s1"
        "nextTimer s' = nextTimer ?s1"
      and nodes: "\<forall>l. nodesAt s' l = nodesAt ?s1 l \<union>
             {itemFor cap elem editor c | c.
                     c \<in> set cs \<and> line (positionAt (document editor) (offset c)) = l}"
      using False by auto
    have "\<forall>l. nodesAt s' l = nodesAt s l \<union>
             {itemFor cap elem editor c' | c'.
                     c' \<in> set (c # cs) \<and> line (positionAt (document editor) (offset c')) = l}"
      using nodes by (auto simp: nodesAt_addNode nodesAt_requested)
    then show ?thesis
      using False Cons.prems loop rest
      by (simp add: childStep_active requested_fields addNode_fields)
  qed
qed


lemma childrenLoop_no_editor_result:
  "childrenLoop cap elem None cs items s =
     (s, if \<exists>c\<in>set cs. isWidget c then Inl TypeError else Inr items)"
  by (induction cs arbitrary: items) (simp_all add: childStep_no_editor)

lemma getChildren_no_editor:
  "activeEditor s = None \<Longrightarrow>
   getChildren cap s elem =
     (s, if \<exists>c\<in>set (loopedChildren s elem). isWidget c then Inl TypeError else Inr [])"
  by (simp add: getChildren_def loopedChildren_def childrenLoop_no_editor_result
      split: option.splits)

lemma getChildren_active:
  assumes "activeEditor s = Some editor"
  shows "\<exists>s'. getChildren cap s elem =
          (s', Inr (if isClosed (document editor) then []
                    else map (itemFor cap elem editor) (loopedChildren s elem)))
      \<and> effects s' = effects s @ map (requestFor editor) (filter isWidget (loopedChildren s elem))
      \<and> activeEditor s' = activeEditor s \<and> flutterOutline s' = flutterOutline s
      \<and> updateTimeout s' = updateTimeout s \<and> timers s' = timers s \<and> now s' = now s
      \<and> nextTimer s' = nextTimer s
      \<and> (\<forall>l. nodesAt s' l = nodesAt s l \<union>
            (if isClosed (document editor) then {}
             else {itemFor cap elem editor c | c.
                     c \<in> set (loopedChildren s elem)
                     \<and> line (positionAt (document editor) (offset c)) = l}))"
proof (cases "\<exists>ol cs. outlineOf s elem = Some ol \<and> children ol = Some cs \<and> truthyLength ol")
  case True
  then obtain ol cs where h: "outlineOf s elem = Some ol" "children ol = Some cs" "truthyLength ol"
    by blast
  then have g: "getChildren cap s elem = childrenLoop cap elem (Some editor) cs [] s"
    and l: "loopedChildren s elem = cs"
    using assms by (simp_all add: getChildren_def loopedChildren_def)
  show ?thesis
    using childrenLoop_active [OF assms, of cap elem cs "[]"] unfolding g l by simp
next
  case False
  then have "getChildren cap s elem = (s, Inr [])" and "loopedChildren s elem = []"
    by (auto simp: getChildren_def loopedChildren_def split: option.splits)
  then show ?thesis by simp
qed

lemma parent_itemFor: "parent (itemFor cap elem editor c) = elem"
  by (simp add: itemFor_def newFlutterWidgetItem_def)

lemma outline_itemFor: "outline (itemFor cap elem editor c) = c"
  by (simp add: itemFor_def newFlutterWidgetItem_def)

lemma fixes_itemFor:
  "fixes' (itemFor cap elem editor c) =
     (if isWidget c
      then filter hasKind (codeActionsOf (cap (uri (document editor)) (zeroRangeAt (document editor) c)))
      else [])"
  by (simp add: itemFor_def newFlutterWidgetItem_def codeActionFixes_def codeActionsOf_def)

lemma codeActionsOf_set: "ca \<in> set (codeActionsOf fs) \<longleftrightarrow> IsCodeAction ca \<in> set fs"
  by (induction fs) (auto simp: codeActionsOf_def split: commandOrCodeAction.splits)

lemma hasKind_iff: "hasKind ca \<longleftrightarrow> (\<exists>k. codeAction.kind ca = Some k \<and> value' k \<noteq> [])"
  by (cases "codeAction.kind ca") (simp_all add: hasKind_def)

lemma hasKind_fun: "hasKind = (\<lambda>ca. \<exists>k. codeAction.kind ca = Some k \<and> value' k \<noteq> [])"
  by (rule ext) (rule hasKind_iff)

lemma zeroRangeAt_eq:
  "zeroRangeAt doc c = \<lparr>start = positionAt doc (offset c), end' = positionAt doc (offset c)\<rparr>"
  by (simp add: zeroRangeAt_def Let_def)

lemma itemFor_fixes_explicit:
  fixes cap :: codeActionProvider
  defines "answer editor c \<equiv> cap (uri (document editor))
             \<lparr>start = positionAt (document editor) (offset c),
              end' = positionAt (document editor) (offset c)\<rparr>"
  shows "(flutterOutline.kind c = utf16 ''DART_ELEMENT'' \<longrightarrow> fixes' (itemFor cap elem editor c) = [])
     \<and> (flutterOutline.kind c \<noteq> utf16 ''DART_ELEMENT'' \<longrightarrow>
          fixes' (itemFor cap elem editor c) =
            filter (\<lambda>ca. \<exists>k. codeAction.kind ca = Some k \<and> value' k \<noteq> [])
              (codeActionsOf (answer editor c)))
     \<and> (\<forall>ca\<in>set (fixes' (itemFor cap elem editor c)).
           IsCodeAction ca \<in> set (answer editor c)
           \<and> (\<exists>k. codeAction.kind ca = Some k \<and> value' k \<noteq> []))"
proof (cases "isWidget c")
  case True
  then have "fixes' (itemFor cap elem editor c) = filter hasKind (codeActionsOf (answer editor c))"
    by (simp add: fixes_itemFor zeroRangeAt_eq answer_def)
  then show ?thesis
    using True by (simp add: isWidget_def hasKind_fun codeActionsOf_set)
next
  case False
  then have "fixes' (itemFor cap elem editor c) = []"
    by (simp add: fixes_itemFor)
  then show ?thesis
    using False by (simp add: isWidget_def)
qed


lemma requestFor_fun:
  "requestFor editor = (\<lambda>c. ExecuteCodeActionProvider (uri (document editor))
                            \<lparr>start = positionAt (document editor) (offset c),
                             end' = positionAt (document editor) (offset c)\<rparr>)"
  by (rule ext) (simp add: requestFor_def zeroRangeAt_eq)

lemma isWidget_fun: "isWidget = (\<lambda>c. flutterOutline.kind c \<noteq> utf16 ''DART_ELEMENT'')"
  by (rule ext) (simp add: isWidget_def)

subsection \<open>The example data evaluated\<close>

lemma exTracking_eq:
  "exTracking = \<lparr>activeEditor = Some exEditor, flutterOutline = None,
     treeNodesByLine = Map.empty, updateTimeout = None, now = 0, timers = [], nextTimer = 0,
     effects = [ForceNotificationsFor (utf16 ''/main.dart'')]\<rparr>"
  by (simp add: exTracking_def constructor_def setTrackingFile_def initial_def exEditor_def
      exDocument_def exIsAnalyzable_def)

lemma exLoaded_eq:
  "exLoaded = \<lparr>activeEditor = Some exEditor, flutterOutline = Some exNotification,
     treeNodesByLine = Map.empty, updateTimeout = Some 0, now = 0, timers = [(0, 200)],
     nextTimer = 1, effects = [ForceNotificationsFor (utf16 ''/main.dart'')]\<rparr>"
  by (simp add: exLoaded_def exTracking_eq onFlutterOutline_def exNotification_def exEditor_def
      exDocument_def clearTimeout_def setTimeout_def)

lemma looped_ex:
  "flutterOutline s = Some exNotification \<Longrightarrow> loopedChildren s None = [exColumn]"
  "loopedChildren s (Some exColumnItem) = [exText, exBuild]"
  by (simp_all add: loopedChildren_def outlineOf_def exNotification_def exRoot_def
      exColumn_def exColumnItem_def truthyLength_def)

lemma isWidget_ex: "isWidget exText" "\<not> isWidget exBuild" "isWidget exColumn"
  by (simp_all add: isWidget_def exText_def exBuild_def exColumn_def utf16_def)

lemma exCap_fixes: "codeActionFixes (exCap u r) = [exWrap]"
  by (simp add: exCap_def codeActionFixes_def codeActionsOf_def hasKind_def exWrap_def utf16_def)

lemma getLabel_ex:
  "getLabel exText = utf16 ''Text''" "getLabel exBuild = utf16 ''build()''"
  "getLabel exColumn = utf16 ''Column''"
  by (simp_all add: exText_def exBuild_def exColumn_def getLabel_def appendIf_def truthy_def
      trim_def isWhiteSpace_def utf16_def)

lemma children_ex:
  "children exText = None" "children exBuild = None" "children exColumn = Some [exText, exBuild]"
  by (simp_all add: exText_def exBuild_def exColumn_def)

lemma itemFor_exText: "itemFor exCap p exEditor exText = exTextItem p"
  by (simp add: itemFor_def isWidget_ex exCap_fixes newFlutterWidgetItem_def getLabel_ex
      children_ex exTextItem_def)

lemma itemFor_exColumn: "itemFor exCap None exEditor exColumn = exColumnItem"
  by (simp add: itemFor_def isWidget_ex exCap_fixes newFlutterWidgetItem_def getLabel_ex
      children_ex exColumnItem_def)

lemma itemFor_exBuild: "itemFor exCap p exEditor exBuild = exBuildItem p"
  by (simp add: itemFor_def isWidget_ex codeActionFixes_Nil newFlutterWidgetItem_def getLabel_ex
      children_ex exBuildItem_def)

lemma exEditor_open: "\<not> isClosed (document exEditor)"
  by (simp add: exEditor_def exDocument_def)

lemma exLoaded_active: "activeEditor exLoaded = Some exEditor"
  by (simp add: exLoaded_eq)

lemma ex_lines:
  "line (positionAt (document exEditor) (offset exColumn)) = 0"
  "line (positionAt (document exEditor) (offset exText)) = 1"
  "line (positionAt (document exEditor) (offset exBuild)) = 2"
  by (simp_all add: exEditor_def exDocument_def exColumn_def exText_def exBuild_def)

lemma requestFor_ex:
  "requestFor exEditor exText =
     ExecuteCodeActionProvider (utf16 ''file:///main.dart'')
        \<lparr>start = \<lparr>line = 1, character = 2\<rparr>, end' = \<lparr>line = 1, character = 2\<rparr>\<rparr>"
  "requestFor exEditor exColumn =
     ExecuteCodeActionProvider (utf16 ''file:///main.dart'')
        \<lparr>start = \<lparr>line = 0, character = 5\<rparr>, end' = \<lparr>line = 0, character = 5\<rparr>\<rparr>"
  by (simp_all add: requestFor_def zeroRangeAt_eq exEditor_def exDocument_def exText_def
      exColumn_def)

lemma on_line_one:
  "{f c | c. c \<in> set [a] \<and> g c = l} = (if g a = l then {f a} else {})"
  by auto

lemma on_line_two:
  "{f c | c. c \<in> set [a, b] \<and> g c = l}
     = (if g a = l then {f a} else {}) \<union> (if g b = l then {f b} else {})"
  by auto

lemma getChildren_top_example:
  assumes "activeEditor s = Some exEditor" and "flutterOutline s = Some exNotification"
  shows "\<exists>s'. getChildren exCap s None = (s', Inr [exColumnItem])
     \<and> effects s' = effects s @ [requestFor exEditor exColumn]
     \<and> activeEditor s' = activeEditor s \<and> flutterOutline s' = flutterOutline s
     \<and> updateTimeout s' = updateTimeout s \<and> timers s' = timers s \<and> now s' = now s
     \<and> nextTimer s' = nextTimer s
     \<and> (\<forall>l. nodesAt s' l = nodesAt s l \<union> (if l = 0 then {exColumnItem} else {}))"
proof -
  have l: "loopedChildren s None = [exColumn]"
    using assms(2) by (rule looped_ex)
  have "{itemFor exCap None exEditor c | c.
           c \<in> set [exColumn] \<and> line (positionAt (document exEditor) (offset c)) = l}
        = (if l = 0 then {exColumnItem} else {})" for l
    by (simp only: on_line_one ex_lines itemFor_exColumn eq_commute [of 0 l])
  then show ?thesis
    using getChildren_active [OF assms(1), of exCap None] exEditor_open
    by (simp add: l isWidget_ex itemFor_exColumn)
qed

lemma getChildren_column_example:
  assumes "activeEditor s = Some exEditor"
  shows "\<exists>s'. getChildren exCap s (Some exColumnItem)
         = (s', Inr [exTextItem (Some exColumnItem), exBuildItem (Some exColumnItem)])
     \<and> effects s' = effects s @ [requestFor exEditor exText]
     \<and> activeEditor s' = activeEditor s \<and> flutterOutline s' = flutterOutline s
     \<and> updateTimeout s' = updateTimeout s \<and> timers s' = timers s \<and> now s' = now s
     \<and> nextTimer s' = nextTimer s
     \<and> (\<forall>l. nodesAt s' l = nodesAt s l
            \<union> (if l = 1 then {exTextItem (Some exColumnItem)} else {})
            \<union> (if l = 2 then {exBuildItem (Some exColumnItem)} else {}))"
proof -
  have l: "loopedChildren s (Some exColumnItem) = [exText, exBuild]"
    by (rule looped_ex)
  have "{itemFor exCap (Some exColumnItem) exEditor c | c.
           c \<in> set [exText, exBuild] \<and> line (positionAt (document exEditor) (offset c)) = l}
        = (if l = 1 then {exTextItem (Some exColumnItem)} else {})
            \<union> (if l = 2 then {exBuildItem (Some exColumnItem)} else {})" for l
    by (simp only: on_line_two ex_lines itemFor_exText itemFor_exBuild eq_commute [of 1 l]
        eq_commute [of 2 l])
  then show ?thesis
    using getChildren_active [OF assms(1), of exCap "Some exColumnItem"] exEditor_open
    by (simp add: l isWidget_ex itemFor_exText itemFor_exBuild Un_assoc)
qed

lemma exLoaded_outline: "flutterOutline exLoaded = Some exNotification"
  by (simp add: exLoaded_eq)

lemma getChildren_ex_results:
  "snd (getChildren exCap exLoaded None) = Inr [exColumnItem]"
  "snd (getChildren exCap exLoaded (Some exColumnItem))
     = Inr [exTextItem (Some exColumnItem), exBuildItem (Some exColumnItem)]"
  "effects (fst (getChildren exCap exLoaded (Some exColumnItem)))
     = effects exLoaded @ [requestFor exEditor exText]"
  using getChildren_top_example [OF exLoaded_active exLoaded_outline]
    getChildren_column_example [OF exLoaded_active]
  by auto

subsection \<open>The claims about the notification handler, update and getChildren\<close>

text \<open>
  C4. A notification for a file other than the active editor's, or one that arrives
  when there is no active editor, changes nothing: the stored outline, the per-line
  map, the handle of the update timer and the pending timers stay as they were.
\<close>

theorem onFlutterOutline_other_file:
  assumes "activeEditor s = None
     \<or> (\<exists>editor. activeEditor s = Some editor \<and> file' n \<noteq> fileName (document editor))"
  shows "flutterOutline (onFlutterOutline s n) = flutterOutline s
     \<and> treeNodesByLine (onFlutterOutline s n) = treeNodesByLine s
     \<and> updateTimeout (onFlutterOutline s n) = updateTimeout s
     \<and> timers (onFlutterOutline s n) = timers s
     \<and> onFlutterOutline s n = s"
  using assms by (auto simp: onFlutterOutline_def split: option.splits)

theorem onFlutterOutline_other_file_witness:
  "onFlutterOutline exLoaded \<lparr>file' = utf16 ''/other.dart'', outline = Some exZero\<rparr> = exLoaded
   \<and> onFlutterOutline initial exNotification = initial"
  using onFlutterOutline_other_file [of exLoaded "\<lparr>file' = utf16 ''/other.dart'', outline = Some exZero\<rparr>"]
    onFlutterOutline_other_file [of initial exNotification]
  by (simp add: exLoaded_eq exEditor_def exDocument_def initial_def utf16_def)

text \<open>
  C5. \<^verbatim>\<open>update\<close> hides the tree, setting the context key to false and firing no
  event, exactly when there is no stored outline, no active editor, the stored outline is
  for another file than the active editor's, or the root of the outline has no
  children; otherwise it sets the key to true and fires the change event with no
  element, that is for the whole tree.
\<close>

theorem update_hides_or_shows:
  "update s =
     (if flutterOutline s = None \<or> activeEditor s = None \<or> storedFileDiffers s
         \<or> rootChildren s = []
      then s\<lparr>effects := effects s @ [SetContext DART_SHOW_FLUTTER_OUTLINE False]\<rparr>
      else s\<lparr>effects := effects s @ [SetContext DART_SHOW_FLUTTER_OUTLINE True, Fire None]\<rparr>)"
  by (simp add: update_def updateHides_def storedFileDiffers_def rootChildren_def hideTree_def
      showTree_def setTreeVisible_def refresh_def split: option.splits)

theorem update_hides_or_shows_witness:
  "effects (update exLoaded) =
     effects exLoaded @ [SetContext DART_SHOW_FLUTTER_OUTLINE True, Fire None]
   \<and> effects (update exTracking) =
     effects exTracking @ [SetContext DART_SHOW_FLUTTER_OUTLINE False]"
  using update_hides_or_shows [of exLoaded] update_hides_or_shows [of exTracking]
  by (simp add: exLoaded_eq exTracking_eq storedFileDiffers_def rootChildren_def
      exNotification_def exRoot_def exEditor_def exDocument_def)

text \<open>
  C7. \<^verbatim>\<open>getChildren\<close> asks the code-action provider exactly for the children whose
  kind is not \<^verbatim>\<open>DART_ELEMENT\<close>, each at the empty range at the child's offset, and for
  nothing when there is no editor. An item for a \<^verbatim>\<open>DART_ELEMENT\<close> child has no fixes;
  the fixes of any other item are the code actions of the answer that have a kind with a
  non-empty value, so every fix attached is such a code action of the answer.
\<close>

theorem getChildren_quick_fixes:
  assumes "getChildren cap s elem = (s', res)"
  shows "(case activeEditor s of
            None \<Rightarrow> effects s' = effects s \<and> (\<forall>items. res = Inr items \<longrightarrow> items = [])
          | Some editor \<Rightarrow>
              effects s' = effects s @
                map (\<lambda>c. ExecuteCodeActionProvider (uri (document editor))
                            \<lparr>start = positionAt (document editor) (offset c),
                             end' = positionAt (document editor) (offset c)\<rparr>)
                  (filter (\<lambda>c. flutterOutline.kind c \<noteq> utf16 ''DART_ELEMENT'') (loopedChildren s elem))
              \<and> (\<exists>items. res = Inr items \<and>
                   (\<forall>item\<in>set items.
                      (flutterOutline.kind (outline item) = utf16 ''DART_ELEMENT'' \<longrightarrow> fixes' item = [])
                      \<and> (flutterOutline.kind (outline item) \<noteq> utf16 ''DART_ELEMENT'' \<longrightarrow>
                           fixes' item =
                             filter (\<lambda>ca. \<exists>k. codeAction.kind ca = Some k \<and> value' k \<noteq> [])
                               (codeActionsOf
                                  (cap (uri (document editor))
                                     \<lparr>start = positionAt (document editor) (offset (outline item)),
                                      end' = positionAt (document editor) (offset (outline item))\<rparr>)))
                      \<and> (\<forall>ca\<in>set (fixes' item).
                            IsCodeAction ca
                              \<in> set (cap (uri (document editor))
                                     \<lparr>start = positionAt (document editor) (offset (outline item)),
                                      end' = positionAt (document editor) (offset (outline item))\<rparr>)
                            \<and> (\<exists>k. codeAction.kind ca = Some k \<and> value' k \<noteq> [])))))"
proof (cases "activeEditor s")
  case None
  have "s' = s" and "res = (if \<exists>c\<in>set (loopedChildren s elem). isWidget c then Inl TypeError else Inr [])"
    using assms unfolding getChildren_no_editor [OF None] by auto
  then have "effects s' = effects s \<and> (\<forall>items. res = Inr items \<longrightarrow> items = [])"
    by (simp split: if_splits)
  then show ?thesis
    by (simp add: None)
next
  case (Some editor)
  from getChildren_active [OF Some, of cap elem] assms obtain items where
    r: "res = Inr items"
    and i: "items = (if isClosed (document editor) then []
                    else map (itemFor cap elem editor) (loopedChildren s elem))"
    and e: "effects s' = effects s @ map (requestFor editor) (filter isWidget (loopedChildren s elem))"
    by auto
  have items: "(flutterOutline.kind (outline item) = utf16 ''DART_ELEMENT'' \<longrightarrow> fixes' item = [])
                      \<and> (flutterOutline.kind (outline item) \<noteq> utf16 ''DART_ELEMENT'' \<longrightarrow>
                           fixes' item =
                             filter (\<lambda>ca. \<exists>k. codeAction.kind ca = Some k \<and> value' k \<noteq> [])
                               (codeActionsOf
                                  (cap (uri (document editor))
                                     \<lparr>start = positionAt (document editor) (offset (outline item)),
                                      end' = positionAt (document editor) (offset (outline item))\<rparr>)))
                      \<and> (\<forall>ca\<in>set (fixes' item).
                            IsCodeAction ca
                              \<in> set (cap (uri (document editor))
                                     \<lparr>start = positionAt (document editor) (offset (outline item)),
                                      end' = positionAt (document editor) (offset (outline item))\<rparr>)
                            \<and> (\<exists>k. codeAction.kind ca = Some k \<and> value' k \<noteq> []))"
    if "item \<in> set items" for item
  proof -
    from that i obtain c where c: "item = itemFor cap elem editor c"
      by (auto split: if_splits)
    then have o: "outline item = c"
      by (simp add: outline_itemFor)
    show ?thesis
      unfolding o unfolding c by (rule itemFor_fixes_explicit)
  qed
  have e': "effects s' = effects s @
                map (\<lambda>c. ExecuteCodeActionProvider (uri (document editor))
                            \<lparr>start = positionAt (document editor) (offset c),
                             end' = positionAt (document editor) (offset c)\<rparr>)
                  (filter (\<lambda>c. flutterOutline.kind c \<noteq> utf16 ''DART_ELEMENT'') (loopedChildren s elem))"
    using e unfolding requestFor_fun isWidget_fun .
  show ?thesis
    unfolding Some option.case
    apply (rule conjI [OF e'])
    apply (rule exI [of _ items])
    apply (rule conjI [OF r])
    apply (rule ballI)
    apply (erule items)
    done
qed

theorem getChildren_quick_fixes_witness:
  "effects (fst (getChildren exCap exLoaded (Some exColumnItem))) =
     effects exLoaded @
       [ExecuteCodeActionProvider (utf16 ''file:///main.dart'')
          \<lparr>start = \<lparr>line = 1, character = 2\<rparr>, end' = \<lparr>line = 1, character = 2\<rparr>\<rparr>]
   \<and> snd (getChildren exCap exLoaded (Some exColumnItem))
       = Inr [exTextItem (Some exColumnItem), exBuildItem (Some exColumnItem)]
   \<and> flutterOutline.kind exText \<noteq> utf16 ''DART_ELEMENT''
   \<and> fixes' (exTextItem (Some exColumnItem)) = [exWrap]
   \<and> flutterOutline.kind exBuild = utf16 ''DART_ELEMENT''
   \<and> fixes' (exBuildItem (Some exColumnItem)) = []"
  using getChildren_quick_fixes [of exCap exLoaded "Some exColumnItem"
      "fst (getChildren exCap exLoaded (Some exColumnItem))"
      "snd (getChildren exCap exLoaded (Some exColumnItem))"]
    getChildren_ex_results isWidget_ex
  by (simp add: exTextItem_def exBuildItem_def requestFor_ex isWidget_def)

text \<open>
  C8. When the length of the outline node \<^verbatim>\<open>getChildren\<close> works on is missing or
  zero, \<^verbatim>\<open>getChildren\<close> returns no item and changes nothing, whatever children the
  node has: the guard tests the node's length in the source text, not the number of its
  children.
\<close>

theorem getChildren_falsy_length:
  assumes "outlineOf s elem = Some ol" and "length' ol = None \<or> length' ol = Some 0"
  shows "getChildren cap s elem = (s, Inr [])"
  using assms by (auto simp: getChildren_def truthyLength_def split: option.splits)

theorem getChildren_falsy_length_witness:
  "children exZero = Some [exText] \<and> getChildren exCap exLoaded (Some exZeroItem) = (exLoaded, Inr [])"
  using getChildren_falsy_length [of exLoaded "Some exZeroItem" exZero exCap]
  by (simp add: outlineOf_def exZeroItem_def exZero_def)

text \<open>
  C9. Every item \<^verbatim>\<open>getChildren\<close> returns for an element has that element as its
  parent, and every item it returns for no element has no parent: \<^verbatim>\<open>getParent\<close> gives
  back the argument of the call.
\<close>

theorem getChildren_parent:
  assumes "getChildren cap s elem = (s', Inr items)" and "item \<in> set items"
  shows "getParent item = elem"
proof (cases "activeEditor s")
  case None
  with assms show ?thesis
    by (simp add: getChildren_no_editor split: if_splits)
next
  case (Some editor)
  from getChildren_active [OF Some, of cap elem] assms show ?thesis
    by (auto simp: getParent_def parent_itemFor split: if_splits)
qed


theorem getChildren_parent_witness:
  "snd (getChildren exCap exLoaded (Some exColumnItem))
     = Inr [exTextItem (Some exColumnItem), exBuildItem (Some exColumnItem)]
   \<and> getParent (exTextItem (Some exColumnItem)) = Some exColumnItem
   \<and> snd (getChildren exCap exLoaded None) = Inr [exColumnItem]
   \<and> getParent exColumnItem = None"
  using getChildren_parent [of exCap exLoaded "Some exColumnItem"
      "fst (getChildren exCap exLoaded (Some exColumnItem))"
      "[exTextItem (Some exColumnItem), exBuildItem (Some exColumnItem)]"
      "exTextItem (Some exColumnItem)"]
    getChildren_parent [of exCap exLoaded None "fst (getChildren exCap exLoaded None)"
      "[exColumnItem]" exColumnItem]
    getChildren_ex_results
  by (simp add: prod_eq_iff)

subsection \<open>Timers\<close>

lemma onFlutterOutline_accept:
  assumes "activeEditor s = Some editor" and "file' n = fileName (document editor)"
  shows "onFlutterOutline s n =
     s\<lparr>flutterOutline := Some n, treeNodesByLine := Map.empty,
       timers := filter (\<lambda>(h, due). Some h \<noteq> updateTimeout s) (timers s)
                 @ [(nextTimer s, now s + 200)],
       nextTimer := Suc (nextTimer s), updateTimeout := Some (nextTimer s)\<rparr>"
  using assms by (simp add: onFlutterOutline_def clearTimeout_def setTimeout_def)

lemma update_fields:
  "activeEditor (update s) = activeEditor s"
  "flutterOutline (update s) = flutterOutline s"
  "treeNodesByLine (update s) = treeNodesByLine s"
  "updateTimeout (update s) = updateTimeout s"
  "timers (update s) = timers s"
  "now (update s) = now s"
  "nextTimer (update s) = nextTimer s"
  by (simp_all add: update_def hideTree_def showTree_def setTreeVisible_def refresh_def)

lemma fold_update_fields:
  "activeEditor (fold (\<lambda>timer. update) ts s) = activeEditor s"
  "flutterOutline (fold (\<lambda>timer. update) ts s) = flutterOutline s"
  "treeNodesByLine (fold (\<lambda>timer. update) ts s) = treeNodesByLine s"
  "updateTimeout (fold (\<lambda>timer. update) ts s) = updateTimeout s"
  "timers (fold (\<lambda>timer. update) ts s) = timers s"
  "now (fold (\<lambda>timer. update) ts s) = now s"
  "nextTimer (fold (\<lambda>timer. update) ts s) = nextTimer s"
  by (induction ts arbitrary: s) (simp_all add: update_fields)

lemma advanceTo_fields:
  "activeEditor (advanceTo t s) = activeEditor s"
  "flutterOutline (advanceTo t s) = flutterOutline s"
  "treeNodesByLine (advanceTo t s) = treeNodesByLine s"
  "updateTimeout (advanceTo t s) = updateTimeout s"
  "timers (advanceTo t s) = filter (\<lambda>timer. \<not> isDue t timer) (timers s)"
  "now (advanceTo t s) = max (now s) t"
  "nextTimer (advanceTo t s) = nextTimer s"
  by (simp_all add: advanceTo_def fold_update_fields)

lemma timersInv_advanceTo: "timersInv s \<Longrightarrow> timersInv (advanceTo t s)"
  by (simp add: timersInv_def advanceTo_fields)

lemma timersInv_filter:
  "timersInv s \<Longrightarrow> filter (\<lambda>(h, due). Some h \<noteq> updateTimeout s) (timers s) = []"
  by (auto simp: timersInv_def filter_empty_conv)

lemma advanceTo_none_due:
  assumes "\<forall>timer\<in>set (timers s). t < snd timer" and "now s \<le> t"
  shows "advanceTo t s = s\<lparr>now := t\<rparr>"
proof -
  have "filter (isDue t) (timers s) = []"
    using assms(1) by (auto simp: filter_empty_conv isDue_def)
  moreover have "filter (\<lambda>timer. \<not> isDue t timer) (timers s) = timers s"
    using assms(1) by (auto simp: filter_id_conv isDue_def)
  ultimately show ?thesis
    using assms(2) by (simp add: advanceTo_def max_def)
qed

lemma advanceTo_one_due:
  assumes "timers s = [(h, due)]" and "due \<le> t" and "now s \<le> t"
  shows "advanceTo t s = update (s\<lparr>now := t, timers := []\<rparr>)"
  using assms by (simp add: advanceTo_def isDue_def max_def)

lemma inBurst_first:
  assumes "activeEditor s = Some editor" and "timersInv s" and "now s \<le> t"
    and "file' n = fileName (document editor)"
  shows "inBurst editor (effects (advanceTo t s)) t n (onFlutterOutline (advanceTo t s) n)"
proof -
  let ?a = "advanceTo t s"
  have a: "activeEditor ?a = Some editor"
    using assms(1) by (simp add: advanceTo_fields)
  have f: "filter (\<lambda>(h, due). Some h \<noteq> updateTimeout ?a) (timers ?a) = []"
    using assms(2) by (intro timersInv_filter timersInv_advanceTo)
  have n: "now ?a = t"
    using assms(3) by (simp add: advanceTo_fields max_def)
  show ?thesis
    unfolding onFlutterOutline_accept [OF a assms(4)] f
    by (simp add: inBurst_def a n)
qed

lemma inBurst_step:
  assumes "inBurst editor log t n s" and "t \<le> t'" and "t' < t + 200"
    and "file' n' = fileName (document editor)"
  shows "inBurst editor log t' n' (onFlutterOutline (advanceTo t' s) n')"
proof -
  from assms(1) obtain h where h: "timers s = [(h, t + 200)]" "updateTimeout s = Some h"
    and s: "activeEditor s = Some editor" "now s = t" "effects s = log"
    by (auto simp: inBurst_def)
  have adv: "advanceTo t' s = s\<lparr>now := t'\<rparr>"
    using h s assms(2,3) by (intro advanceTo_none_due) simp_all
  have a: "activeEditor (s\<lparr>now := t'\<rparr>) = Some editor"
    using s by simp
  show ?thesis
    unfolding adv onFlutterOutline_accept [OF a assms(4)]
    using h s by (simp add: inBurst_def)
qed

lemma inBurst_deliver:
  assumes "inBurst editor log t n s" and "closeTimes t (map fst es)"
    and "\<forall>e\<in>set es. file' (snd e) = fileName (document editor)"
  shows "inBurst editor log (fst (last ((t, n) # es))) (snd (last ((t, n) # es))) (deliver es s)"
  using assms
proof (induction es arbitrary: t n s)
  case Nil
  then show ?case by simp
next
  case (Cons e es)
  obtain t' n' where e: "e = (t', n')"
    by (cases e)
  have "inBurst editor log t' n' (onFlutterOutline (advanceTo t' s) n')"
    using Cons.prems by (intro inBurst_step [of editor log t n]) (simp_all add: e)
  from Cons.IH [OF this] Cons.prems(2,3)
  show ?case
    by (simp add: e)
qed

lemma inBurst_quiet:
  assumes "inBurst editor log t n s" and "t \<le> u" and "u < t + 200"
  shows "advanceTo u s = s\<lparr>now := u\<rparr>"
  using assms by (intro advanceTo_none_due) (auto simp: inBurst_def)

lemma inBurst_fires:
  assumes "inBurst editor log t n s" and "t + 200 \<le> u"
  shows "advanceTo u s = update (s\<lparr>now := u, timers := []\<rparr>)"
proof -
  from assms(1) obtain h where "timers s = [(h, t + 200)]" and "now s = t"
    by (auto simp: inBurst_def)
  then show ?thesis
    using assms(2) by (intro advanceTo_one_due [of s h "t + 200"]) simp_all
qed

text \<open>
  C2. The handler of a notification for the active editor's file replaces the stored
  outline, empties the per-line map, cancels the pending update and schedules a new one
  200 ms later. So for a burst of such notifications, each less than 200 ms after the one
  before: at its end the stored outline is that of the last notification and one timer is
  pending, due 200 ms after the last notification; nothing is logged during the burst
  nor before that timer is due; and when it is due \<^verbatim>\<open>update\<close> runs once, on the state
  holding the last notification.
\<close>

theorem debounce:
  assumes "activeEditor s = Some editor" and "timersInv s"
    and "\<forall>e\<in>set ((t, n) # es). file' (snd e) = fileName (document editor)"
    and "now s \<le> t" and "closeTimes t (map fst es)"
  shows "onFlutterOutline s n =
           s\<lparr>flutterOutline := Some n, treeNodesByLine := Map.empty,
             timers := [(nextTimer s, now s + 200)],
             nextTimer := Suc (nextTimer s), updateTimeout := Some (nextTimer s)\<rparr>
     \<and> (let s' = deliver ((t, n) # es) s;
             last_t = fst (last ((t, n) # es));
             last_n = snd (last ((t, n) # es))
         in flutterOutline s' = Some last_n
            \<and> treeNodesByLine s' = Map.empty
            \<and> (\<exists>h. timers s' = [(h, last_t + 200)] \<and> updateTimeout s' = Some h)
            \<and> effects s' = effects (advanceTo t s)
            \<and> (\<forall>u. last_t \<le> u \<and> u < last_t + 200 \<longrightarrow> advanceTo u s' = s'\<lparr>now := u\<rparr>)
            \<and> (\<forall>u. last_t + 200 \<le> u \<longrightarrow>
                  advanceTo u s' = update (s'\<lparr>now := u, timers := []\<rparr>)))"
proof
  have m: "file' n = fileName (document editor)"
    using assms(3) by simp
  show "onFlutterOutline s n =
           s\<lparr>flutterOutline := Some n, treeNodesByLine := Map.empty,
             timers := [(nextTimer s, now s + 200)],
             nextTimer := Suc (nextTimer s), updateTimeout := Some (nextTimer s)\<rparr>"
    unfolding onFlutterOutline_accept [OF assms(1) m] timersInv_filter [OF assms(2)] by simp
  have "inBurst editor (effects (advanceTo t s)) t n (onFlutterOutline (advanceTo t s) n)"
    using assms(1,2,4) m by (rule inBurst_first)
  then have b: "inBurst editor (effects (advanceTo t s)) (fst (last ((t, n) # es)))
      (snd (last ((t, n) # es))) (deliver ((t, n) # es) s)"
    using inBurst_deliver [of editor _ t n _ es] assms(3,5) by simp
  show "let s' = deliver ((t, n) # es) s;
             last_t = fst (last ((t, n) # es));
             last_n = snd (last ((t, n) # es))
         in flutterOutline s' = Some last_n
            \<and> treeNodesByLine s' = Map.empty
            \<and> (\<exists>h. timers s' = [(h, last_t + 200)] \<and> updateTimeout s' = Some h)
            \<and> effects s' = effects (advanceTo t s)
            \<and> (\<forall>u. last_t \<le> u \<and> u < last_t + 200 \<longrightarrow> advanceTo u s' = s'\<lparr>now := u\<rparr>)
            \<and> (\<forall>u. last_t + 200 \<le> u \<longrightarrow>
                  advanceTo u s' = update (s'\<lparr>now := u, timers := []\<rparr>))"
    unfolding Let_def
    using b inBurst_quiet [OF b] inBurst_fires [OF b]
    by (simp add: inBurst_def)
qed


lemma timersInv_initial: "timersInv initial"
  by (simp add: timersInv_def initial_def)

lemma timersInv_onFlutterOutline: "timersInv s \<Longrightarrow> timersInv (onFlutterOutline s n)"
  by (cases "activeEditor s")
     (auto simp: onFlutterOutline_def clearTimeout_def setTimeout_def timersInv_def)

lemma timersInv_setTrackingFile: "timersInv s \<Longrightarrow> timersInv (setTrackingFile isAnalyzable s e)"
  by (cases e) (simp_all add: setTrackingFile_def hideTree_def setTreeVisible_def timersInv_def)

lemma timersInv_getChildren: "timersInv s \<Longrightarrow> timersInv (fst (getChildren cap s elem))"
proof (cases "activeEditor s")
  case None
  then show "timersInv s \<Longrightarrow> ?thesis"
    by (simp add: getChildren_no_editor)
next
  case (Some editor)
  from getChildren_active [OF Some, of cap elem]
  show "timersInv s \<Longrightarrow> ?thesis"
    by (auto simp: timersInv_def)
qed

lemma exTracking_timersInv: "timersInv exTracking"
  by (simp add: exTracking_eq timersInv_def)

lemma exDeliver:
  "deliver [(10, exNotification2), (100, exNotification)] exTracking =
     exTracking\<lparr>flutterOutline := Some exNotification, updateTimeout := Some 1, now := 100,
       timers := [(1, 300)], nextTimer := 2\<rparr>"
  by (simp add: exTracking_eq onFlutterOutline_def advanceTo_def isDue_def clearTimeout_def
      setTimeout_def exNotification_def exNotification2_def exEditor_def exDocument_def)

theorem debounce_witness:
  "flutterOutline (deliver [(10, exNotification2), (100, exNotification)] exTracking)
     = Some exNotification
   \<and> timers (deliver [(10, exNotification2), (100, exNotification)] exTracking) = [(1, 300)]
   \<and> effects (advanceTo 299 (deliver [(10, exNotification2), (100, exNotification)] exTracking))
     = effects exTracking
   \<and> effects (advanceTo 300 (deliver [(10, exNotification2), (100, exNotification)] exTracking))
     = effects exTracking @ [SetContext DART_SHOW_FLUTTER_OUTLINE True, Fire None]"
proof -
  let ?d = "deliver [(10, exNotification2), (100, exNotification)] exTracking"
  have m: "\<forall>e\<in>set [(10, exNotification2), (100, exNotification)].
             file' (snd e) = fileName (document exEditor)"
    by (simp add: exNotification_def exNotification2_def exEditor_def exDocument_def)
  have a: "activeEditor exTracking = Some exEditor" and n: "now exTracking \<le> 10"
    and c: "closeTimes 10 (map fst [(100 :: nat, exNotification)])"
    by (simp_all add: exTracking_eq)
  from debounce [OF a exTracking_timersInv m n c]
  have quiet: "advanceTo 299 ?d = ?d\<lparr>now := 299\<rparr>"
    and fires: "advanceTo 300 ?d = update (?d\<lparr>now := 300, timers := []\<rparr>)"
    and last: "flutterOutline ?d = Some exNotification"
    by (simp_all add: Let_def del: deliver.simps)
  have "effects (update (?d\<lparr>now := 300, timers := []\<rparr>))
          = effects exTracking @ [SetContext DART_SHOW_FLUTTER_OUTLINE True, Fire None]"
    unfolding exDeliver
    by (simp add: update_def updateHides_def exTracking_eq exNotification_def exRoot_def
        exEditor_def exDocument_def showTree_def setTreeVisible_def refresh_def)
  moreover have "timers ?d = [(1, 300)]" and "effects ?d = effects exTracking"
    unfolding exDeliver by simp_all
  ultimately show ?thesis
    using last by (simp add: quiet fires del: deliver.simps)
qed

subsection \<open>The per-line map\<close>

lemma nodesAt_empty: "treeNodesByLine s = Map.empty \<Longrightarrow> nodesAt s ln = {}"
  by (simp add: nodesAt_def)




lemma linesAgree_getChildren:
  assumes "linesAgree s"
  shows "linesAgree (fst (getChildren cap s elem))"
proof (cases "activeEditor s")
  case None
  then show ?thesis
    using assms by (simp add: getChildren_no_editor)
next
  case (Some editor)
  from getChildren_active [OF Some, of cap elem] obtain s' where
    g: "fst (getChildren cap s elem) = s'" and a: "activeEditor s' = Some editor"
    and n: "\<And>l. nodesAt s' l \<subseteq> nodesAt s l \<union>
             {itemFor cap elem editor c | c.
                c \<in> set (loopedChildren s elem)
                \<and> line (positionAt (document editor) (offset c)) = l}"
    using Some by (auto split: if_splits)
  have "line (positionAt (document editor) (offset (outline item))) = l"
    if "item \<in> nodesAt s' l" for item l
  proof -
    from that n [of l] consider "item \<in> nodesAt s l"
      | c where "item = itemFor cap elem editor c"
          "line (positionAt (document editor) (offset c)) = l"
      by blast
    then show ?thesis
    proof cases
      case 1
      then show ?thesis
        using assms Some by (simp add: linesAgree_def)
    next
      case 2
      then show ?thesis
        by (simp add: outline_itemFor)
    qed
  qed
  then show ?thesis
    by (simp add: g linesAgree_def a)
qed


subsection \<open>The nodes of an outline\<close>

lemma outlineNodes_self: "ol \<in> set (outlineNodes ol)"
  by (cases ol) simp

lemma outlineNodes_child:
  assumes "ol \<in> set (outlineNodes root)" and "children ol = Some cs" and "c \<in> set cs"
  shows "c \<in> set (outlineNodes root)"
  using assms
proof (induction root rule: outlineNodes.induct)
  case (1 k off len de vn cn lb xs)
  show ?case
  proof (cases "ol = FlutterOutline k off len de vn cn lb xs")
    case True
    then have "xs = Some cs"
      using "1.prems"(2) by simp
    then show ?thesis
      using "1.prems"(3) outlineNodes_self [of c] by auto
  next
    case False
    then obtain ys y where y: "xs = Some ys" "y \<in> set ys" "ol \<in> set (outlineNodes y)"
      using "1.prems"(1) by (auto split: option.splits)
    from "1.IH" [OF y(1,2) y(3) "1.prems"(2,3)] show ?thesis
      using y(1,2) by auto
  qed
qed

lemma loopedChildren_current:
  assumes "elem = None \<or> (\<exists>e. elem = Some e \<and> outline e \<in> currentNodes s)"
    and "c \<in> set (loopedChildren s elem)"
  shows "c \<in> currentNodes s"
proof -
  from assms(2) obtain ol cs where o: "outlineOf s elem = Some ol" "children ol = Some cs"
    "c \<in> set cs"
    by (cases "outlineOf s elem"; cases "children (the (outlineOf s elem))")
       (auto simp: loopedChildren_def split: if_splits)
  have "ol \<in> currentNodes s"
    using assms(1) o(1) by (auto simp: outlineOf_def currentNodes_def outlineNodes_self
        split: option.splits)
  then show ?thesis
    using o(2,3) by (auto simp: currentNodes_def outlineNodes_child split: option.splits)
qed


lemma storedCurrent_getChildren:
  assumes "storedCurrent s"
    and "elem = None \<or> (\<exists>e. elem = Some e \<and> outline e \<in> currentNodes s)"
  shows "storedCurrent (fst (getChildren cap s elem))"
proof (cases "activeEditor s")
  case None
  then show ?thesis
    using assms by (simp add: getChildren_no_editor)
next
  case (Some editor)
  from getChildren_active [OF Some, of cap elem] obtain s' where
    g: "fst (getChildren cap s elem) = s'" and f: "flutterOutline s' = flutterOutline s"
    and n: "\<And>l. nodesAt s' l \<subseteq> nodesAt s l \<union>
             {itemFor cap elem editor c | c.
                c \<in> set (loopedChildren s elem)
                \<and> line (positionAt (document editor) (offset c)) = l}"
    using Some by (auto split: if_splits)
  have c: "currentNodes s' = currentNodes s"
    by (simp add: currentNodes_def f)
  have "outline item \<in> currentNodes s" if "item \<in> nodesAt s' l" for item l
  proof -
    from that n [of l] consider "item \<in> nodesAt s l"
      | c where "item = itemFor cap elem editor c" "c \<in> set (loopedChildren s elem)"
      by blast
    then show ?thesis
    proof cases
      case 1
      then show ?thesis
        using assms(1) by (auto simp: storedCurrent_def)
    next
      case 2
      then show ?thesis
        using loopedChildren_current [OF assms(2)] by (simp add: outline_itemFor)
    qed
  qed
  then show ?thesis
    by (simp add: g storedCurrent_def c)
qed

subsection \<open>Suspended calls\<close>

lemma afterFixes_fields:
  "activeEditor (fst (afterFixes elem editor c fs items s)) = activeEditor s"
  "flutterOutline (fst (afterFixes elem editor c fs items s)) = flutterOutline s"
  "updateTimeout (fst (afterFixes elem editor c fs items s)) = updateTimeout s"
  "timers (fst (afterFixes elem editor c fs items s)) = timers s"
  "now (fst (afterFixes elem editor c fs items s)) = now s"
  "nextTimer (fst (afterFixes elem editor c fs items s)) = nextTimer s"
  "effects (fst (afterFixes elem editor c fs items s)) = effects s"
  by (simp_all add: afterFixes_def addNode_fields Let_def split: option.splits)






text \<open>
  Whatever ran while a call was suspended, the loop body builds an item with the call's
  element as its parent and with the code actions of the answer that have a kind with a
  non-empty value as its fixes; and up to its next \<^verbatim>\<open>await\<close> the loop sends at most
  one request, for a child that can have fixes.
\<close>

lemma afterFixes_items:
  assumes "snd (afterFixes elem editor c fs items s) = Inr items'"
  shows "items' = items
     \<or> (\<exists>node. items' = items @ [node] \<and> parent node = elem \<and> outline node = c
           \<and> fixes' node = filter hasKind (codeActionsOf fs))"
  using assms
  by (auto simp: afterFixes_def newFlutterWidgetItem_def codeActionFixes_def Let_def
      split: option.splits if_splits)

lemma loopUntilAwait_requests:
  "effects (fst (loopUntilAwait elem editor cs items s)) = effects s
   \<or> (\<exists>e c. editor = Some e \<and> c \<in> set cs \<and> isWidget c
         \<and> effects (fst (loopUntilAwait elem editor cs items s))
             = effects s @ [requestFor e c])"
proof (induction cs arbitrary: items s)
  case Nil
  show ?case by simp
next
  case (Cons c cs)
  show ?case
  proof (cases "isWidget c")
    case True
    then show ?thesis
      by (cases editor) auto
  next
    case False
    let ?a = "afterFixes elem editor c [] items s"
    show ?thesis
    proof (cases "snd ?a")
      case (Inl err)
      then have "loopUntilAwait elem editor (c # cs) items s = (fst ?a, Raised err)"
        using False by (simp add: case_prod_unfold)
      then show ?thesis
        by (simp add: afterFixes_fields)
    next
      case (Inr items')
      then have l: "loopUntilAwait elem editor (c # cs) items s
                   = loopUntilAwait elem editor cs items' (fst ?a)"
        using False by (simp add: case_prod_unfold)
      from Cons.IH [of items' "fst ?a"] show ?thesis
        unfolding l by (auto simp: afterFixes_fields)
    qed
  qed
qed

lemma startGetChildren_loop:
  "startGetChildren s elem
     = loopUntilAwait elem (activeEditor s) (loopedChildren s elem) [] s"
  by (simp add: startGetChildren_def loopedChildren_def split: option.splits)








subsection \<open>The line of a stored item\<close>











subsection \<open>Items for nodes of the stored outline\<close>











subsection \<open>The example states\<close>

lemma exShown_facts:
  "activeEditor exShown = Some exEditor"
  "flutterOutline exShown = Some exNotification"
  "timers exShown = []"
  "now exShown = 200"
  "nodesAt exShown l = (if l = 0 then {exColumnItem} else {})"
  "effects exShown = effects exLoaded @
     [SetContext DART_SHOW_FLUTTER_OUTLINE True, Fire None, requestFor exEditor exColumn]"
proof -
  let ?a = "advanceTo 200 exLoaded"
  have a: "activeEditor ?a = Some exEditor" and f: "flutterOutline ?a = Some exNotification"
    by (simp_all add: advanceTo_fields exLoaded_eq)
  have t: "timers ?a = []" "now ?a = 200" "treeNodesByLine ?a = Map.empty"
    by (simp_all add: advanceTo_fields exLoaded_eq isDue_def)
  have "?a = update (exLoaded\<lparr>now := 200, timers := []\<rparr>)"
    by (rule advanceTo_one_due [of _ 0 200]) (simp_all add: exLoaded_eq)
  then have e: "effects ?a = effects exLoaded @ [SetContext DART_SHOW_FLUTTER_OUTLINE True, Fire None]"
    by (simp add: update_def updateHides_def exLoaded_eq exNotification_def exRoot_def
        exEditor_def exDocument_def showTree_def setTreeVisible_def refresh_def)
  from getChildren_top_example [OF a f] obtain s' where
    "getChildren exCap ?a None = (s', Inr [exColumnItem])"
    "effects s' = effects ?a @ [requestFor exEditor exColumn]"
    "activeEditor s' = activeEditor ?a" "flutterOutline s' = flutterOutline ?a"
    "timers s' = timers ?a" "now s' = now ?a"
    "\<forall>l. nodesAt s' l = nodesAt ?a l \<union> (if l = 0 then {exColumnItem} else {})"
    by blast
  then show "activeEditor exShown = Some exEditor"
    "flutterOutline exShown = Some exNotification"
    "timers exShown = []"
    "now exShown = 200"
    "nodesAt exShown l = (if l = 0 then {exColumnItem} else {})"
    "effects exShown = effects exLoaded @
       [SetContext DART_SHOW_FLUTTER_OUTLINE True, Fire None, requestFor exEditor exColumn]"
    by (simp_all add: exShown_def a f t e nodesAt_empty)
qed

lemma updateHides_ex:
  "activeEditor s = Some exEditor \<Longrightarrow> flutterOutline s = Some exNotification
   \<Longrightarrow> \<not> updateHides s"
  by (simp add: updateHides_def exNotification_def exRoot_def exEditor_def exDocument_def)

lemma update_effects:
  "effects (update s) = effects s @
     (if updateHides s then [SetContext DART_SHOW_FLUTTER_OUTLINE False]
      else [SetContext DART_SHOW_FLUTTER_OUTLINE True, Fire None])"
  by (simp add: update_def hideTree_def showTree_def setTreeVisible_def refresh_def)

lemma exNotification_matches:
  "file' exNotification = fileName (document exEditor)"
  "file' exNotification2 = fileName (document exEditor)"
  by (simp_all add: exNotification_def exNotification2_def exEditor_def exDocument_def)

subsection \<open>The whole tree is refreshed\<close>

text \<open>
  C3, as amended. A notification for the active file discards every stored node, and the
  deferred update that follows it either hides the tree or fires one change event with no
  element, that is for the whole tree. No difference between the old and the new outline
  is computed: the handler's result does not depend on the outline stored before.
\<close>

theorem notification_refreshes_whole_tree:
  assumes "activeEditor s = Some editor" and "file' n = fileName (document editor)"
  shows "treeNodesByLine (onFlutterOutline s n) = Map.empty
     \<and> onFlutterOutline (s\<lparr>flutterOutline := previous\<rparr>) n = onFlutterOutline s n
     \<and> (effects (update (onFlutterOutline s n))
           = effects s @ [SetContext DART_SHOW_FLUTTER_OUTLINE False]
        \<or> effects (update (onFlutterOutline s n))
           = effects s @ [SetContext DART_SHOW_FLUTTER_OUTLINE True, Fire None])"
proof -
  have a: "activeEditor (s\<lparr>flutterOutline := previous\<rparr>) = Some editor"
    using assms(1) by simp
  show ?thesis
    unfolding onFlutterOutline_accept [OF a assms(2)] onFlutterOutline_accept [OF assms]
    by (simp add: update_effects)
qed

theorem notification_refreshes_whole_tree_witness:
  "nodesAt exShown 0 = {exColumnItem}
   \<and> treeNodesByLine (onFlutterOutline exShown exNotification2) = Map.empty
   \<and> effects (update (onFlutterOutline exShown exNotification2))
       = effects exShown @ [SetContext DART_SHOW_FLUTTER_OUTLINE True, Fire None]"
proof -
  have "\<not> updateHides (onFlutterOutline exShown exNotification2)"
    unfolding onFlutterOutline_accept [OF exShown_facts(1) exNotification_matches(2)]
    by (simp add: updateHides_def exShown_facts exNotification2_def exRoot2_def exEditor_def
        exDocument_def)
  then have "effects (update (onFlutterOutline exShown exNotification2))
       \<noteq> effects exShown @ [SetContext DART_SHOW_FLUTTER_OUTLINE False]"
    unfolding onFlutterOutline_accept [OF exShown_facts(1) exNotification_matches(2)]
    by (simp add: update_effects)
  then show ?thesis
    using notification_refreshes_whole_tree [OF exShown_facts(1) exNotification_matches(2)]
    by (simp add: exShown_facts)
qed

text \<open>
  The claim C3 as stated fails: the example notification arrives a second time while its
  outline is shown, so nothing differs between the old tree and the new one; yet the node
  stored for line 0 is discarded and, 200 ms later, the change event is fired with no
  element, so that the tree asks for every item again.
\<close>

theorem refresh_not_incremental:
  "flutterOutline exShown = Some exNotification
   \<and> nodesAt exShown 0 = {exColumnItem}
   \<and> nodesAt (onFlutterOutline exShown exNotification) 0 = {}
   \<and> effects (advanceTo 400 (onFlutterOutline exShown exNotification))
       = effects exShown @ [SetContext DART_SHOW_FLUTTER_OUTLINE True, Fire None]"
proof -
  let ?x = "onFlutterOutline exShown exNotification"
  have x: "?x = exShown\<lparr>flutterOutline := Some exNotification, treeNodesByLine := Map.empty,
       timers := [(nextTimer exShown, 400)],
       nextTimer := Suc (nextTimer exShown), updateTimeout := Some (nextTimer exShown)\<rparr>"
    unfolding onFlutterOutline_accept [OF exShown_facts(1) exNotification_matches(1)]
    by (simp add: exShown_facts)
  have "advanceTo 400 ?x = update (?x\<lparr>now := 400, timers := []\<rparr>)"
    by (rule advanceTo_one_due [of _ "nextTimer exShown" 400]) (simp_all add: x exShown_facts)
  moreover have "\<not> updateHides (?x\<lparr>now := 400, timers := []\<rparr>)"
    by (rule updateHides_ex) (simp_all add: x exShown_facts)
  ultimately have "effects (advanceTo 400 ?x)
       = effects exShown @ [SetContext DART_SHOW_FLUTTER_OUTLINE True, Fire None]"
    by (simp add: update_effects x)
  moreover have "nodesAt ?x 0 = {}"
    by (simp add: x nodesAt_def)
  ultimately show ?thesis
    by (simp add: exShown_facts)
qed

subsection \<open>Nodes of a superseded outline\<close>

lemma outlineNodes_ex:
  "outlineNodes exRoot = [exRoot, exColumn, exText, exBuild]"
  "outlineNodes exRoot2 = [exRoot2, exBuild]"
  by (simp_all add: exRoot_def exRoot2_def exColumn_def exText_def exBuild_def)

lemma exText_not_in_exRoot2: "exText \<notin> set (outlineNodes exRoot2)"
  by (simp add: outlineNodes_ex) (simp add: exText_def exRoot2_def exBuild_def utf16_def)

subsection \<open>The uninterrupted call\<close>

text \<open>
  The loop of the uninterrupted call is the loop up to its first \<^verbatim>\<open>await\<close>, resumed
  at once with the provider's answer and uninterrupted from there; so the uninterrupted
  \<^verbatim>\<open>getChildren\<close> is the call that is resumed at every \<^verbatim>\<open>await\<close> before anything
  else runs.
\<close>

lemma childStep_afterFixes:
  "childStep cap elem editor c items s =
     (if isWidget c then
        (case editor of
           None \<Rightarrow> (s, Inl TypeError)
         | Some e \<Rightarrow>
             afterFixes elem editor c (cap (uri (document e)) (zeroRangeAt (document e) c)) items
               (s\<lparr>effects := effects s @ [requestFor e c]\<rparr>))
      else afterFixes elem editor c [] items s)"
  by (cases editor)
     (simp_all add: childStep_def afterFixes_def getFixes_def requestFor_def Let_def)

lemma childrenLoop_suspends:
  "childrenLoop cap elem editor cs items s =
     (case loopUntilAwait elem editor cs items s of
        (s', Returned items') \<Rightarrow> (s', Inr items')
      | (s', Raised err) \<Rightarrow> (s', Inl err)
      | (s', Suspended p) \<Rightarrow>
          (case afterFixes (pElement p) (pEditor p) (pChild p)
                  (case pEditor p of
                     None \<Rightarrow> []
                   | Some e \<Rightarrow> cap (uri (document e)) (zeroRangeAt (document e) (pChild p)))
                  (pChildren p) s' of
             (s'', Inl err) \<Rightarrow> (s'', Inl err)
           | (s'', Inr items') \<Rightarrow>
               childrenLoop cap (pElement p) (pEditor p) (pRest p) items' s''))"
proof (induction cs arbitrary: items s)
  case Nil
  show ?case by simp
next
  case (Cons c cs)
  show ?case
  proof (cases "isWidget c")
    case True
    then show ?thesis
      by (cases editor) (simp_all add: childStep_afterFixes)
  next
    case False
    let ?a = "afterFixes elem editor c [] items s"
    show ?thesis
    proof (cases "snd ?a")
      case (Inl err)
      then show ?thesis
        using False by (simp add: childStep_afterFixes case_prod_unfold)
    next
      case (Inr items')
      then show ?thesis
        using False Cons.IH [of items' "fst ?a"]
        by (simp add: childStep_afterFixes case_prod_unfold)
    qed
  qed
qed


lemma getChildren_suspends:
  "getChildren cap s elem =
     (case startGetChildren s elem of
        (s', Returned items') \<Rightarrow> (s', Inr items')
      | (s', Raised err) \<Rightarrow> (s', Inl err)
      | (s', Suspended p) \<Rightarrow>
          (case afterFixes (pElement p) (pEditor p) (pChild p)
                  (case pEditor p of
                     None \<Rightarrow> []
                   | Some e \<Rightarrow> cap (uri (document e)) (zeroRangeAt (document e) (pChild p)))
                  (pChildren p) s' of
             (s'', Inl err) \<Rightarrow> (s'', Inl err)
           | (s'', Inr items') \<Rightarrow>
               childrenLoop cap (pElement p) (pEditor p) (pRest p) items' s''))"
proof (cases "\<exists>ol cs. outlineOf s elem = Some ol \<and> children ol = Some cs \<and> truthyLength ol")
  case True
  then obtain ol cs where "outlineOf s elem = Some ol" "children ol = Some cs" "truthyLength ol"
    by blast
  then have "getChildren cap s elem = childrenLoop cap elem (activeEditor s) cs [] s"
    and "startGetChildren s elem = loopUntilAwait elem (activeEditor s) cs [] s"
    by (simp_all add: getChildren_def startGetChildren_def)
  then show ?thesis
    by (simp only: childrenLoop_suspends [of cap elem "activeEditor s" cs "[]" s])
next
  case False
  then have "getChildren cap s elem = (s, Inr [])" and "startGetChildren s elem = (s, Returned [])"
    by (auto simp: getChildren_def startGetChildren_def split: option.splits)
  then show ?thesis
    by simp
qed

subsection \<open>The example schedules\<close>

lemma afterFixes_active:
  assumes "activeEditor s = Some active" and "\<not> isClosed (document e)"
  shows "afterFixes elem (Some e) c fs items s =
     (addNode (line (positionAt (document active) (offset c)))
        (newFlutterWidgetItem elem c (codeActionFixes fs) e) s,
      Inr (items @ [newFlutterWidgetItem elem c (codeActionFixes fs) e]))"
  using assms by (simp add: afterFixes_def Let_def)

lemma newItem_ex:
  "newFlutterWidgetItem None exColumn (codeActionFixes (exCap u r)) exEditor = exColumnItem"
  "newFlutterWidgetItem p exText (codeActionFixes (exCap u r)) exEditor = exTextItem p"
  "newFlutterWidgetItem p exBuild (codeActionFixes []) exEditor = exBuildItem p"
  using itemFor_exColumn itemFor_exText [of p] itemFor_exBuild [of p]
  by (simp_all add: itemFor_def isWidget_ex exCap_def)

lemma start_top_ex:
  assumes "activeEditor s = Some exEditor" and "flutterOutline s = Some exNotification"
  shows "startGetChildren s None =
     (s\<lparr>effects := effects s @ [requestFor exEditor exColumn]\<rparr>,
      Suspended (Pending None (Some exEditor) exColumn [] []))"
  by (simp add: startGetChildren_loop looped_ex(1) [OF assms(2)] assms(1) isWidget_ex)

lemma start_column_ex:
  assumes "activeEditor s = Some exEditor"
  shows "startGetChildren s (Some exColumnItem) =
     (s\<lparr>effects := effects s @ [requestFor exEditor exText]\<rparr>,
      Suspended (Pending (Some exColumnItem) (Some exEditor) exText [exBuild] []))"
  by (simp add: startGetChildren_loop looped_ex(2) assms isWidget_ex)

lemma resume_top_ex:
  assumes "activeEditor s = Some exEditor"
  shows "resumeGetChildren (Pending None (Some exEditor) exColumn [] []) (exCap u r) s =
     (addNode 0 exColumnItem s, Returned [exColumnItem])"
  by (simp add: resumeGetChildren_def afterFixes_active [OF assms exEditor_open] newItem_ex
      ex_lines)

lemma resume_column_ex:
  assumes "activeEditor s = Some exEditor"
  shows "resumeGetChildren (Pending (Some exColumnItem) (Some exEditor) exText [exBuild] [])
           (exCap u r) s =
     (addNode 2 (exBuildItem (Some exColumnItem)) (addNode 1 (exTextItem (Some exColumnItem)) s),
      Returned [exTextItem (Some exColumnItem), exBuildItem (Some exColumnItem)])"
proof -
  have a: "activeEditor (addNode ln node s) = Some exEditor" for ln node
    using assms by (simp add: addNode_fields)
  show ?thesis
    by (simp add: resumeGetChildren_def afterFixes_active [OF assms exEditor_open]
        afterFixes_active [OF a exEditor_open] newItem_ex ex_lines isWidget_ex)
qed

lemma accepted_ex:
  assumes "activeEditor s = Some exEditor"
  shows "activeEditor (onFlutterOutline s exNotification2) = Some exEditor"
    and "flutterOutline (onFlutterOutline s exNotification2) = Some exNotification2"
    and "nodesAt (onFlutterOutline s exNotification2) l = {}"
  unfolding onFlutterOutline_accept [OF assms exNotification_matches(2)]
  by (simp_all add: assms nodesAt_def)





lemma settle_returned: "settle 0 [p] (s, Returned items) = (s, [])"
  by (simp add: settle_def dropCall_def)






subsection \<open>Outside notifications and calls\<close>

text \<open>
  The line of a stored item is an invariant of notifications and calls only. When another
  editor becomes the active one, or the text of the document changes, the map keeps its
  nodes until the next notification is accepted.
\<close>

lemma exSwitched_step:
  "exSwitched = fst (step exIsAnalyzable (ActiveEditorChanged (Some exReadme)) (exShown, []))"
  by (simp add: exSwitched_def)

lemma editor_change_keeps_nodes: "linesAgree exShown \<and> \<not> linesAgree exSwitched"
proof -
  have "activeEditor exSwitched = None" and "treeNodesByLine exSwitched = treeNodesByLine exShown"
    by (simp_all add: exSwitched_def setTrackingFile_def exIsAnalyzable_def exReadme_def
      exDocument_def hideTree_def setTreeVisible_def utf16_def)
  then have "\<not> linesAgree exSwitched"
    using exShown_facts(5) [of 0] by (auto simp: linesAgree_def nodesAt_def)
  moreover have "linesAgree exShown"
    using exShown_facts(5) by (simp add: linesAgree_def exShown_facts(1) ex_lines)
       (simp add: exColumnItem_def ex_lines)
  ultimately show ?thesis
    by simp
qed


lemma document_change_keeps_nodes:
  "\<not> linesAgree (fst (step exIsAnalyzable (DocumentChanged exEdited) (exShown, [])))"
proof
  let ?s = "fst (step exIsAnalyzable (DocumentChanged exEdited) (exShown, []))"
  assume l: "linesAgree ?s"
  have a: "activeEditor ?s = Some \<lparr>document = exEdited\<rparr>"
    by (simp add: exShown_facts(1) reviseEditor_def exEditor_def exEdited_def exDocument_def)
  have "nodesAt ?s 0 = {exColumnItem}"
    using exShown_facts(5) [of 0] by (simp add: nodesAt_def)
  then have "exColumnItem \<in> nodesAt ?s 0"
    by simp
  then have "line (positionAt exEdited (offset (outline exColumnItem))) = 0"
    using l unfolding linesAgree_def a by auto
  then show False
    by (simp add: exEdited_def exColumnItem_def exColumn_def)
qed

text \<open>
  Nodes of a superseded outline are also stored by a call on an item the tree still holds
  from that outline: here the tree asks for the children of the column's item after the
  outline without the column has arrived.
\<close>

lemma exStale_eq:
  "\<exists>s. exStale = addNode 2 (exBuildItem (Some exColumnItem))
                    (addNode 1 (exTextItem (Some exColumnItem)) s)
       \<and> flutterOutline s = Some exNotification2"
proof -
  let ?s3 = "addNode 0 exColumnItem
     (exLoaded\<lparr>effects := effects exLoaded @ [requestFor exEditor exColumn]\<rparr>)"
  let ?s4 = "onFlutterOutline ?s3 exNotification2"
  have a3: "activeEditor ?s3 = Some exEditor"
    by (simp add: addNode_fields exLoaded_active)
  note a4 = accepted_ex(1) [OF a3]
  have "exStale = addNode 2 (exBuildItem (Some exColumnItem))
                    (addNode 1 (exTextItem (Some exColumnItem))
                       (?s4\<lparr>effects := effects ?s4 @ [requestFor exEditor exText]\<rparr>))"
    by (simp add: exStale_def exLoaded_def [symmetric]
        start_top_ex [OF exLoaded_active exLoaded_outline] resume_top_ex settle_returned
        exLoaded_active start_column_ex [OF a4] resume_column_ex a4)
  moreover have "flutterOutline (?s4\<lparr>effects := effects ?s4 @ [requestFor exEditor exText]\<rparr>)
                   = Some exNotification2"
    by (simp add: accepted_ex(2) [OF a3])
  ultimately show ?thesis
    by blast
qed

lemma stale_element_stored:
  "flutterOutline exStale = Some exNotification2
   \<and> exTextItem (Some exColumnItem) \<in> nodesAt exStale 1
   \<and> outline (exTextItem (Some exColumnItem)) \<notin> currentNodes exStale"
proof -
  from exStale_eq obtain s where
    e: "exStale = addNode 2 (exBuildItem (Some exColumnItem))
                    (addNode 1 (exTextItem (Some exColumnItem)) s)"
    and f: "flutterOutline s = Some exNotification2"
    by blast
  have f': "flutterOutline exStale = Some exNotification2"
    by (simp add: e addNode_fields f)
  have n: "exTextItem (Some exColumnItem) \<in> nodesAt exStale 1"
    by (simp add: e nodesAt_addNode)
  have o: "outline (exTextItem (Some exColumnItem)) = exText"
    by (simp add: exTextItem_def)
  have c: "currentNodes exStale = set (outlineNodes exRoot2)"
    by (simp add: currentNodes_def f') (simp add: exNotification2_def)
  show ?thesis
    unfolding o c using f' n exText_not_in_exRoot2 by simp
qed


subsection \<open>highlightNodeAt\<close>

lemma containsOffset_iff:
  "containsOffset off item \<longleftrightarrow>
     offset (outline item) < off
     \<and> (\<exists>len. length' (outline item) = Some len \<and> off < offset (outline item) + len)"
  by (cases "length' (outline item)") (simp_all add: containsOffset_def)

text \<open>
  With an active editor, \<^verbatim>\<open>highlightNodeAt\<close> does what C1 says: it looks up the line of
  the position, and reveals the first node stored for that line whose range strictly
  contains the position's offset, if there is one; a node that starts at the offset or
  ends at it is not revealed.
\<close>

lemma highlightNodeAt_with_editor:
  assumes "activeEditor s = Some editor"
  shows "highlightNodeAt s pos =
     Inr (case treeNodesByLine s (line pos) of
            None \<Rightarrow> s
          | Some items \<Rightarrow>
              (case find (\<lambda>item. offset (outline item) < offsetAt (document editor) pos
                             \<and> (\<exists>len. length' (outline item) = Some len
                                   \<and> offsetAt (document editor) pos < offset (outline item) + len))
                      items of
                 None \<Rightarrow> s
               | Some item \<Rightarrow> s\<lparr>effects := effects s @ [Reveal item]\<rparr>))"
proof -
  have "containsOffset (offsetAt (document editor) pos) =
          (\<lambda>item. offset (outline item) < offsetAt (document editor) pos
                             \<and> (\<exists>len. length' (outline item) = Some len
                                   \<and> offsetAt (document editor) pos < offset (outline item) + len))"
    by (rule ext) (rule containsOffset_iff)
  then show ?thesis
    using assms by (simp add: highlightNodeAt_def Let_def split: option.splits)
qed

lemma highlightNodeAt_boundary:
  assumes "offset (outline item) = off \<or> length' (outline item) = Some (off - offset (outline item))"
  shows "\<not> containsOffset off item"
  using assms by (auto simp: containsOffset_iff)

lemma highlightNodeAt_without_editor:
  assumes "activeEditor s = None"
  shows "highlightNodeAt s pos =
     (if treeNodesByLine s (line pos) = None then Inr s else Inl TypeError)"
  using assms by (simp add: highlightNodeAt_def split: option.splits)

lemma find_only:
  assumes "set xs = {a}" and "P a"
  shows "find P xs = Some a"
proof (cases xs)
  case Nil
  then show ?thesis using assms(1) by simp
next
  case (Cons x ys)
  then have "x = a" using assms(1) by auto
  then show ?thesis using Cons assms(2) by simp
qed

lemma exShown_line0:
  "\<exists>items. treeNodesByLine exShown 0 = Some items \<and> set items = {exColumnItem}"
  using exShown_facts(5) [of 0]
  by (cases "treeNodesByLine exShown 0") (simp_all add: nodesAt_def)

lemma exSwitched_facts:
  "activeEditor exSwitched = None"
  "treeNodesByLine exSwitched = treeNodesByLine exShown"
  by (simp_all add: exSwitched_def setTrackingFile_def exIsAnalyzable_def exReadme_def
      exDocument_def hideTree_def setTreeVisible_def utf16_def)

text \<open>
  C1. The claim fails where the source misses a case. \<^verbatim>\<open>setTrackingFile\<close> sets
  \<^verbatim>\<open>activeEditor\<close> to \<^verbatim>\<open>null\<close> for an editor that is not analyzable and leaves the
  per-line map as it is; \<^verbatim>\<open>highlightNodeAt\<close> then finds an entry for the line and reads
  \<^verbatim>\<open>this.activeEditor.document\<close>. In the example the user moves from the shown Dart
  file to such an editor and puts the cursor on line 0, character 7: the listener raises
  \<^verbatim>\<open>TypeError\<close>, where the same selection in the Dart editor reveals the column's item.
\<close>

theorem selection_without_editor:
  "exSwitched = setTrackingFile exIsAnalyzable exShown (Some exReadme)
   \<and> activeEditor exSwitched = None
   \<and> nodesAt exSwitched 0 = {exColumnItem}
   \<and> onDidChangeTextEditorSelection exSwitched
        [\<lparr>start = \<lparr>line = 0, character = 7\<rparr>, end' = \<lparr>line = 0, character = 7\<rparr>\<rparr>]
       = Inl TypeError
   \<and> onDidChangeTextEditorSelection exShown
        [\<lparr>start = \<lparr>line = 0, character = 7\<rparr>, end' = \<lparr>line = 0, character = 7\<rparr>\<rparr>]
       = Inr (exShown\<lparr>effects := effects exShown @ [Reveal exColumnItem]\<rparr>)"
proof -
  from exShown_line0 obtain items where
    i: "treeNodesByLine exShown 0 = Some items" "set items = {exColumnItem}"
    by blast
  have "containsOffset 7 exColumnItem"
    by (simp add: containsOffset_def exColumnItem_def exColumn_def)
  then have f: "find (containsOffset 7) items = Some exColumnItem"
    using i(2) by (intro find_only)
  have o: "offsetAt (document exEditor) \<lparr>line = 0, character = 7\<rparr> = 7"
    by (simp add: exEditor_def exDocument_def)
  have "highlightNodeAt exShown \<lparr>line = 0, character = 7\<rparr>
          = Inr (exShown\<lparr>effects := effects exShown @ [Reveal exColumnItem]\<rparr>)"
    by (simp add: highlightNodeAt_def exShown_facts(1) i(1) o f)
  moreover have "highlightNodeAt exSwitched \<lparr>line = 0, character = 7\<rparr> = Inl TypeError"
    by (simp add: highlightNodeAt_without_editor exSwitched_facts i(1))
  moreover have "nodesAt exSwitched 0 = {exColumnItem}"
    by (simp add: nodesAt_def exSwitched_facts(2) i)
  ultimately show ?thesis
    by (simp add: onDidChangeTextEditorSelection_def exSwitched_facts(1))
       (simp add: exSwitched_def)
qed

end
